theory Spec2Isabelle
  imports Main "HOL-Library.Word" "HOL-Library.AList"
begin

unbundle bit_operations_syntax

section \<open>Numbers as text\<close>

text \<open>
  JavaScript template strings render a number in decimal.  The values rendered in the
  modelled code are integers (configuration values and octets).
\<close>

definition digit_char :: "nat \<Rightarrow> char" where
  "digit_char d = char_of (48 + d)"

function show_digits :: "int \<Rightarrow> string" where
  "show_digits n =
     (if n < 10 then [digit_char (nat n)]
      else show_digits (n div 10) @ [digit_char (nat (n mod 10))])"
  by pat_completeness auto
termination
  by (relation "measure nat") auto

declare show_digits.simps [simp del]

definition show_nat :: "nat \<Rightarrow> string" where
  "show_nat n = show_digits (int n)"

definition show_int :: "int \<Rightarrow> string" where
  "show_int i = (if i < 0 then CHR ''-'' # show_digits (- i) else show_digits i)"

section \<open>Strings\<close>

text \<open>
  Strings are lists of 8-bit characters; the texts the modelled code handles here (host
  names, addresses, header lines, tool output) are ASCII.  The functions below are the
  JavaScript string methods the source calls, on such strings.
\<close>

definition is_digit :: "char \<Rightarrow> bool" where
  "is_digit c = (48 \<le> (of_char c :: nat) \<and> (of_char c :: nat) \<le> 57)"

definition is_upper :: "char \<Rightarrow> bool" where
  "is_upper c = (65 \<le> (of_char c :: nat) \<and> (of_char c :: nat) \<le> 90)"

definition is_lower :: "char \<Rightarrow> bool" where
  "is_lower c = (97 \<le> (of_char c :: nat) \<and> (of_char c :: nat) \<le> 122)"

definition lower_char :: "char \<Rightarrow> char" where
  "lower_char c = (if is_upper c then char_of ((of_char c :: nat) + 32) else c)"

definition upper_char :: "char \<Rightarrow> char" where
  "upper_char c = (if is_lower c then char_of ((of_char c :: nat) - 32) else c)"

definition toLowerCase :: "string \<Rightarrow> string" where
  "toLowerCase s = map lower_char s"

text \<open>White space as \<open>trim\<close> and the class \<open>\s\<close> see it: tab, line feed, vertical tab,
  form feed, carriage return, space and the no-break space.\<close>

definition is_space :: "char \<Rightarrow> bool" where
  "is_space c = ((of_char c :: nat) \<in> {9, 10, 11, 12, 13, 32, 160})"

definition trim :: "string \<Rightarrow> string" where
  "trim s = rev (dropWhile is_space (rev (dropWhile is_space s)))"

definition startsWith :: "string \<Rightarrow> string \<Rightarrow> bool" where
  "startsWith s p = (take (length p) s = p)"

definition endsWith :: "string \<Rightarrow> string \<Rightarrow> bool" where
  "endsWith s p = (length p \<le> length s \<and> drop (length s - length p) s = p)"

fun includes_str :: "string \<Rightarrow> string \<Rightarrow> bool" where
  "includes_str [] p = (p = [])"
| "includes_str (x # xs) p = (startsWith (x # xs) p \<or> includes_str xs p)"

text \<open>\<open>s.split(c)\<close> for a one-character separator: always at least one piece.\<close>

fun split_on :: "char \<Rightarrow> string \<Rightarrow> string list" where
  "split_on c [] = [[]]"
| "split_on c (x # xs) =
     (if x = c then [] # split_on c xs
      else (case split_on c xs of [] \<Rightarrow> [[x]] | p # ps \<Rightarrow> (x # p) # ps))"

text \<open>\<open>xs.join(sep)\<close>.\<close>

fun join :: "string \<Rightarrow> string list \<Rightarrow> string" where
  "join sep [] = []"
| "join sep [x] = x"
| "join sep (x # y # ys) = x @ sep @ join sep (y # ys)"

text \<open>
  \<open>Number(s)\<close> on the pieces of a dotted address: a string of decimal digits is its
  value, the empty string is 0, and any other piece is \<open>NaN\<close> (\<open>None\<close>).  Signs,
  exponents, hexadecimal and padded forms, which \<open>Number\<close> also reads, do not occur in
  the addresses a resolver returns.
\<close>

definition digit_val :: "char \<Rightarrow> nat" where
  "digit_val c = (of_char c :: nat) - 48"

definition js_Number :: "string \<Rightarrow> int option" where
  "js_Number s =
     (if list_all is_digit s then Some (int (foldl (\<lambda>a c. 10 * a + digit_val c) 0 s)) else None)"

section \<open>Regular expressions\<close>

text \<open>
  The source matches and rewrites text with JavaScript regular expressions.  They are
  modelled by a backtracking matcher over the constructs the source's patterns use:
  literals, character classes, \<open>.\<close>, sequence, alternation, greedy and lazy bounded
  repetition, capture groups, the anchors \<open>^\<close> and \<open>$\<close> (without the \<open>m\<close> flag),
  look-ahead and look-behind, under the \<open>i\<close> flag or not.  A match state is a position
  in the subject and the captures so far; matching a pattern from a state gives the
  states it can end in, in the order in which backtracking tries them, so that the
  first one is the match JavaScript reports.
\<close>

datatype regex =
    Lit char
  | Cls bool "(char \<times> char) list"
  | Dot
  | Eps
  | Seq regex regex
  | Alt regex regex
  | Rep nat "nat option" bool regex
  | Grp nat regex
  | Bol
  | Eol
  | Ahead regex
  | Behind regex

type_synonym captures = "(nat \<times> nat \<times> nat) list"
type_synonym mstate = "nat \<times> captures"

text \<open>
  A class is a list of character ranges, negated or not.  Under the \<open>i\<close> flag two
  characters match when they are equal up to case.
\<close>

definition char_code :: "char \<Rightarrow> int" where
  "char_code c = of_char c"

definition in_ranges :: "(char \<times> char) list \<Rightarrow> char \<Rightarrow> bool" where
  "in_ranges rs c = list_ex (\<lambda>r. char_code (fst r) \<le> char_code c \<and> char_code c \<le> char_code (snd r)) rs"

definition char_matches :: "bool \<Rightarrow> char \<Rightarrow> char \<Rightarrow> bool" where
  "char_matches ic a c = (if ic then upper_char a = upper_char c else a = c)"

definition class_matches :: "bool \<Rightarrow> bool \<Rightarrow> (char \<times> char) list \<Rightarrow> char \<Rightarrow> bool" where
  "class_matches ic neg rs c =
     (neg \<noteq> (in_ranges rs c \<or> (ic \<and> (in_ranges rs (upper_char c) \<or> in_ranges rs (lower_char c)))))"

definition line_terminator :: "char \<Rightarrow> bool" where
  "line_terminator c = (char_code c = 10 \<or> char_code c = 13)"

definition one_char :: "(char \<Rightarrow> bool) \<Rightarrow> string \<Rightarrow> mstate \<Rightarrow> mstate list" where
  "one_char P s st =
     (if fst st < length s \<and> P (s ! fst st) then [(Suc (fst st), snd st)] else [])"

text \<open>
  Repetition of a step at most \<open>k\<close> times and at least \<open>mn\<close> times.  Once the minimum
  is reached an iteration that consumes nothing is rejected, as in the language
  definition; greedy repetition tries one more iteration before stopping, lazy
  repetition the other way round.
\<close>

primrec rep :: "nat \<Rightarrow> (mstate \<Rightarrow> mstate list) \<Rightarrow> bool \<Rightarrow> nat \<Rightarrow> mstate \<Rightarrow> mstate list" where
  "rep 0 step greedy mn st = (if mn = 0 then [st] else [])"
| "rep (Suc k) step greedy mn st =
     (let more = concat (map (\<lambda>st'. if mn = 0 \<and> fst st' = fst st then []
                                    else rep k step greedy (mn - 1) st') (step st));
          stop = (if mn = 0 then [st] else [])
      in if greedy then more @ stop else stop @ more)"

text \<open>
  An unbounded repetition is bounded by its minimum plus the number of characters left:
  beyond the minimum every iteration consumes a character.  Captures inside a
  repeated group are not reset between iterations; no replacement text of the source
  refers to such a group.  A look-behind holds when the pattern matches some stretch of
  the subject that ends at the current position.
\<close>

primrec rmatch :: "regex \<Rightarrow> bool \<Rightarrow> string \<Rightarrow> mstate \<Rightarrow> mstate list" where
  "rmatch (Lit c) ic s st = one_char (char_matches ic c) s st"
| "rmatch (Cls neg rs) ic s st = one_char (class_matches ic neg rs) s st"
| "rmatch Dot ic s st = one_char (\<lambda>c. \<not> line_terminator c) s st"
| "rmatch Eps ic s st = [st]"
| "rmatch (Seq a b) ic s st = concat (map (rmatch b ic s) (rmatch a ic s st))"
| "rmatch (Alt a b) ic s st = rmatch a ic s st @ rmatch b ic s st"
| "rmatch (Rep mn mx greedy r) ic s st =
     rep (case mx of None \<Rightarrow> mn + (length s - fst st) | Some k \<Rightarrow> k) (rmatch r ic s) greedy mn st"
| "rmatch (Grp n r) ic s st =
     map (\<lambda>st'. (fst st', (n, fst st, fst st') # snd st')) (rmatch r ic s st)"
| "rmatch Bol ic s st = (if fst st = 0 then [st] else [])"
| "rmatch Eol ic s st = (if fst st = length s then [st] else [])"
| "rmatch (Ahead r) ic s st = (if rmatch r ic s st = [] then [] else [st])"
| "rmatch (Behind r) ic s st =
     (if list_ex (\<lambda>k. list_ex (\<lambda>st'. fst st' = fst st) (rmatch r ic s (k, snd st)))
           (rev [0..<Suc (fst st)])
      then [st] else [])"

text \<open>
  All matches of a pattern, as the \<open>g\<close> flag finds them: the search for the next match
  starts where the last one ended, one character further after an empty match.  A
  result is the start, the end and the captures of a match; \<open>n\<close> counts the start
  positions still to try.
\<close>

type_synonym rmatch_result = "nat \<times> nat \<times> captures"

function scan :: "regex \<Rightarrow> bool \<Rightarrow> string \<Rightarrow> nat \<Rightarrow> nat \<Rightarrow> rmatch_result list" where
  "scan r ic s p 0 = []"
| "scan r ic s p (Suc n) =
     (case rmatch r ic s (p, []) of
        [] \<Rightarrow> scan r ic s (Suc p) n
      | st # _ \<Rightarrow>
          (p, fst st, snd st) #
          scan r ic s (if fst st \<le> p then Suc p else fst st)
            (Suc n - ((if fst st \<le> p then Suc p else fst st) - p)))"
  by pat_completeness auto
termination
  by (relation "measure (\<lambda>(r, ic, s, p, n). n)") auto

definition match_all :: "regex \<Rightarrow> bool \<Rightarrow> string \<Rightarrow> rmatch_result list" where
  "match_all r ic s = scan r ic s 0 (Suc (length s))"

definition regex_test :: "regex \<Rightarrow> bool \<Rightarrow> string \<Rightarrow> bool" where
  "regex_test r ic s = (match_all r ic s \<noteq> [])"

text \<open>
  Replacement texts: literal text and references \<open>$n\<close> to a capture group (empty when
  the group took no part in the match).  \<open>splice\<close> rebuilds the subject with every
  match replaced.
\<close>

datatype repl_item = Text string | Group nat

definition substring :: "string \<Rightarrow> nat \<Rightarrow> nat \<Rightarrow> string" where
  "substring s a e = take (e - a) (drop a s)"

definition expand :: "repl_item list \<Rightarrow> string \<Rightarrow> captures \<Rightarrow> string" where
  "expand items s caps =
     concat (map (\<lambda>it. case it of
                     Text t \<Rightarrow> t
                   | Group n \<Rightarrow> (case map_of caps n of None \<Rightarrow> [] | Some (a, e) \<Rightarrow> substring s a e))
                 items)"

fun splice :: "repl_item list \<Rightarrow> string \<Rightarrow> nat \<Rightarrow> rmatch_result list \<Rightarrow> string" where
  "splice items s p [] = drop p s"
| "splice items s p ((a, e, caps) # ms) = substring s p a @ expand items s caps @ splice items s e ms"

text \<open>\<open>s.replace(re, repl)\<close> with and without the \<open>g\<close> flag, and \<open>re.test(s)\<close>.\<close>

definition replace_all :: "regex \<Rightarrow> bool \<Rightarrow> repl_item list \<Rightarrow> string \<Rightarrow> string" where
  "replace_all r ic items s = splice items s 0 (match_all r ic s)"

definition replace_first :: "regex \<Rightarrow> bool \<Rightarrow> repl_item list \<Rightarrow> string \<Rightarrow> string" where
  "replace_first r ic items s = splice items s 0 (take 1 (match_all r ic s))"

text \<open>Notation for writing the patterns down.\<close>

definition chars :: "string \<Rightarrow> (char \<times> char) list" where
  "chars cs = map (\<lambda>c. (c, c)) cs"

definition lit :: "string \<Rightarrow> regex" where
  "lit cs = foldr (\<lambda>c r. Seq (Lit c) r) cs Eps"

definition cat :: "regex list \<Rightarrow> regex" where
  "cat rs = foldr Seq rs Eps"

definition many :: "regex \<Rightarrow> regex" where
  "many r = Rep 0 None True r"

definition many1 :: "regex \<Rightarrow> regex" where
  "many1 r = Rep 1 None True r"

definition optional :: "regex \<Rightarrow> regex" where
  "optional r = Rep 0 (Some 1) True r"

definition at_least :: "nat \<Rightarrow> regex \<Rightarrow> regex" where
  "at_least n r = Rep n None True r"


definition az :: "(char \<times> char) list" where
  "az = [(CHR ''a'', CHR ''z'')]"

definition AZ :: "(char \<times> char) list" where
  "AZ = [(CHR ''A'', CHR ''Z'')]"

definition d09 :: "(char \<times> char) list" where
  "d09 = [(CHR ''0'', CHR ''9'')]"

definition alnum :: "(char \<times> char) list" where
  "alnum = az @ AZ @ d09"

definition ws :: "(char \<times> char) list" where
  "ws = [(CHR 0x09, CHR 0x0D), (CHR 0x20, CHR 0x20), (CHR 0xA0, CHR 0xA0)]"

definition wsp :: regex where
  "wsp = Cls False ws"


section \<open>The worker's rate limiter (packages/worker/src/rate-limiter.ts)\<close>

record RateLimiterConfig =
  minDelayMs :: int
  maxRequestsPerRun :: int
  maxConcurrent :: int
  timeoutMs :: int

record RunState =
  lastRequestTime :: int
  requestCount :: int

record RateLimiter =
  runStates :: "string \<rightharpoonup> RunState"
  activeExecutions :: int

text \<open>The constructor: an empty map of run states and no active execution.\<close>

definition new_RateLimiter :: RateLimiter where
  "new_RateLimiter = \<lparr>runStates = Map.empty, activeExecutions = 0\<rparr>"

text \<open>
  A JavaScript \<open>Error\<close> is identified by its message; the worker classifies errors by
  looking into the message, so an error is modelled as its message.
\<close>

type_synonym js_error = string

definition request_limit_message :: "RateLimiterConfig \<Rightarrow> js_error" where
  "request_limit_message cfg =
     ''Maximum request limit ('' @ show_int (maxRequestsPerRun cfg) @ '') reached. '' @
     ''This limit exists to prevent overwhelming target systems.''"

text \<open>
  \<open>waitForRequestSlot(runId)\<close>.  The clock reading \<open>now\<close> is the value of \<open>Date.now()\<close>
  at the call; sleeping for \<open>delayNeeded\<close> milliseconds advances the clock by that much.
  The result is the thrown error or the new request count, the limiter after the call
  (a thrown call has already stored a fresh run state for an unknown run id), and the
  clock after the call.
\<close>

definition waitForRequestSlot ::
  "RateLimiterConfig \<Rightarrow> string \<Rightarrow> int \<Rightarrow> RateLimiter \<Rightarrow> (js_error + int) \<times> RateLimiter \<times> int" where
  "waitForRequestSlot cfg runId now rl =
     (let state = (case runStates rl runId of
                     None \<Rightarrow> \<lparr>lastRequestTime = 0, requestCount = 0\<rparr>
                   | Some s \<Rightarrow> s);
          rl1 = rl\<lparr>runStates := (runStates rl)(runId \<mapsto> state)\<rparr>
      in if requestCount state \<ge> maxRequestsPerRun cfg
         then (Inl (request_limit_message cfg), rl1, now)
         else
           (let timeSinceLastRequest = now - lastRequestTime state;
                delayNeeded = max 0 (minDelayMs cfg - timeSinceLastRequest);
                now' = (if delayNeeded > 0 then now + delayNeeded else now);
                state' = \<lparr>lastRequestTime = now', requestCount = requestCount state + 1\<rparr>
            in (Inr (requestCount state'),
                rl\<lparr>runStates := (runStates rl)(runId \<mapsto> state')\<rparr>, now')))"

text \<open>
  \<open>waitForExecutionSlot\<close> polls: each evaluation of the loop condition is one atomic step
  of the single-threaded runtime, and other jobs run while the caller sleeps.
  \<open>pollExecutionSlot\<close> is one such step: \<open>False\<close> when the caller goes to sleep for a
  second, \<open>True\<close> when it leaves the loop and takes the slot.
\<close>

definition pollExecutionSlot :: "RateLimiterConfig \<Rightarrow> RateLimiter \<Rightarrow> bool \<times> RateLimiter" where
  "pollExecutionSlot cfg rl =
     (if activeExecutions rl \<ge> maxConcurrent cfg then (False, rl)
      else (True, rl\<lparr>activeExecutions := activeExecutions rl + 1\<rparr>))"

text \<open>
  The whole call, when nothing else runs in between: it returns once the condition of
  the loop is false, and never returns (\<open>None\<close>) when the limiter is saturated.
\<close>

partial_function (option) waitForExecutionSlot ::
  "RateLimiterConfig \<Rightarrow> RateLimiter \<times> int \<Rightarrow> (RateLimiter \<times> int) option" where
  "waitForExecutionSlot cfg st =
     (if fst (pollExecutionSlot cfg (fst st))
      then Some (snd (pollExecutionSlot cfg (fst st)), snd st)
      else waitForExecutionSlot cfg (snd (pollExecutionSlot cfg (fst st)), snd st + 1000))"

declare waitForExecutionSlot.simps [code]

definition releaseExecutionSlot :: "RateLimiter \<Rightarrow> RateLimiter" where
  "releaseExecutionSlot rl =
     (if activeExecutions rl > 0 then rl\<lparr>activeExecutions := activeExecutions rl - 1\<rparr> else rl)"

definition resetRunState :: "string \<Rightarrow> RateLimiter \<Rightarrow> RateLimiter" where
  "resetRunState runId rl =
     rl\<lparr>runStates := (runStates rl)(runId \<mapsto> \<lparr>lastRequestTime = 0, requestCount = 0\<rparr>)\<rparr>"



text \<open>
  Histories of the limiter.  Every execution of the worker, however its jobs interleave
  at their suspension points, drives the limiter through a sequence of these atomic
  calls.  A request call carries the clock reading at which it is made.
\<close>

datatype rl_call =
    RequestSlot string int
  | ResetRun string
  | PollSlot
  | ReleaseSlot

fun apply_call :: "RateLimiterConfig \<Rightarrow> RateLimiter \<Rightarrow> rl_call \<Rightarrow> RateLimiter" where
  "apply_call cfg rl (RequestSlot runId now) = fst (snd (waitForRequestSlot cfg runId now rl))"
| "apply_call cfg rl (ResetRun runId) = resetRunState runId rl"
| "apply_call cfg rl PollSlot = snd (pollExecutionSlot cfg rl)"
| "apply_call cfg rl ReleaseSlot = releaseExecutionSlot rl"

definition rl_history :: "RateLimiterConfig \<Rightarrow> rl_call list \<Rightarrow> RateLimiter" where
  "rl_history cfg calls = foldl (apply_call cfg) new_RateLimiter calls"

section \<open>The host validator (backend, host-validator.service.ts)\<close>

text \<open>The exceptions the backend services throw, with their messages.\<close>

datatype backend_error =
    BadRequestException string
  | NotFoundException string

text \<open>
  \<open>net.isIP\<close> of the platform: 4 for a dotted-decimal IPv4 address (four octets, no
  leading zero), 6 for an IPv6 address in its text form (eight groups of up to four
  hexadecimal digits, one run of zero groups written \<open>::\<close>, the last two groups
  optionally as a dotted IPv4 address), 0 otherwise.  Zone identifiers are left out.
\<close>

definition is_hex :: "char \<Rightarrow> bool" where
  "is_hex c = (is_digit c \<or> in_ranges [(CHR ''a'', CHR ''f''), (CHR ''A'', CHR ''F'')] c)"

definition octet_text :: "string \<Rightarrow> bool" where
  "octet_text p =
     (p \<noteq> [] \<and> length p \<le> 3 \<and> list_all is_digit p \<and>
      (length p = 1 \<or> hd p \<noteq> CHR ''0'') \<and>
      foldl (\<lambda>a c. 10 * a + digit_val c) 0 p \<le> 255)"

definition isIPv4 :: "string \<Rightarrow> bool" where
  "isIPv4 s = (let ps = split_on (CHR ''.'') s in length ps = 4 \<and> list_all octet_text ps)"

definition h16 :: "string \<Rightarrow> bool" where
  "h16 p = (p \<noteq> [] \<and> length p \<le> 4 \<and> list_all is_hex p)"

text \<open>
  The number of 16-bit groups a colon-separated run of pieces stands for: each piece a
  group, the last one optionally an IPv4 address (two groups); \<open>None\<close> when a piece is
  neither.
\<close>

definition group_count :: "bool \<Rightarrow> string list \<Rightarrow> nat option" where
  "group_count v4_allowed ps =
     (if ps = [] then Some 0
      else if list_all h16 ps then Some (length ps)
      else if v4_allowed \<and> list_all h16 (butlast ps) \<and> isIPv4 (last ps) then Some (length ps + 1)
      else None)"

text \<open>The pieces on each side of the first \<open>::\<close>, if there is one.\<close>

fun split_double_colon :: "string \<Rightarrow> (string \<times> string) option" where
  "split_double_colon [] = None"
| "split_double_colon [x] = None"
| "split_double_colon (x # y # zs) =
     (if x = CHR '':'' \<and> y = CHR '':'' then Some ([], zs)
      else (case split_double_colon (y # zs) of
              None \<Rightarrow> None
            | Some (l, r) \<Rightarrow> Some (x # l, r)))"

definition colon_pieces :: "string \<Rightarrow> string list" where
  "colon_pieces s = (if s = [] then [] else split_on (CHR '':'') s)"

definition isIPv6 :: "string \<Rightarrow> bool" where
  "isIPv6 s =
     (case split_double_colon s of
        None \<Rightarrow> group_count True (split_on (CHR '':'') s) = Some 8
      | Some (l, r) \<Rightarrow>
          (case (group_count False (colon_pieces l), group_count True (colon_pieces r)) of
             (Some m, Some n) \<Rightarrow> m + n \<le> 7
           | _ \<Rightarrow> False))"

definition isIP :: "string \<Rightarrow> nat" where
  "isIP s = (if isIPv4 s then 4 else if isIPv6 s then 6 else 0)"

text \<open>
  \<open>psl.parse\<close> of the public-suffix library, which the validator is used with as a
  parameter: an error with its message, or a parsed domain of which the validator reads
  the registrable domain (\<open>null\<close> when there is none) and whether the suffix is listed.
\<close>

datatype psl_result = PslError "string option" | PslParsed "string option" bool

definition BLOCKED_TLDS :: "string list" where
  "BLOCKED_TLDS =
     [''local'', ''localhost'', ''internal'', ''intranet'', ''corp'', ''home'', ''lan'',
      ''localdomain'']"

text \<open>The patterns of \<open>DANGEROUS_PATTERNS\<close>, each with its \<open>i\<close> flag.\<close>

definition DANGEROUS_PATTERNS :: "(regex \<times> bool) list" where
  "DANGEROUS_PATTERNS =
     [(cat [Bol, lit ''localhost'', Eol], True),
      (cat [Bol, lit ''127.''], False),
      (cat [Bol, lit ''10.''], False),
      (cat [Bol, lit ''172.'',
            Grp 1 (Alt (cat [Lit (CHR ''1''), Cls False [(CHR ''6'', CHR ''9'')]])
                  (Alt (cat [Lit (CHR ''2''), Cls False d09])
                       (cat [Lit (CHR ''3''), Cls False [(CHR ''0'', CHR ''1'')]]))),
            Lit (CHR ''.'')], False),
      (cat [Bol, lit ''192.168.''], False),
      (cat [Bol, lit ''169.254.''], False),
      (cat [Bol, lit ''::1'', Eol], False),
      (cat [Bol, lit ''fc00:''], True),
      (cat [Bol, lit ''fe80:''], True),
      (cat [Bol, lit ''fd''], True),
      (cat [Bol, lit ''0.0.0.0'', Eol], False),
      (cat [Bol, Lit (CHR ''[''), many Dot, Lit (CHR '']''), Eol], False),
      (cat [Bol, lit ''metadata.''], True),
      (cat [Bol, lit ''169.254.169.254'', Eol], False),
      (cat [Bol, lit ''metadata.google.''], True)]"

text \<open>\<open>/^\[.*\]/\<close>, \<open>/\.+$/\<close>, \<open>/^https?:\/\//i\<close> and the host name grammar.\<close>

definition bracket_re :: regex where
  "bracket_re = cat [Bol, Lit (CHR ''[''), many Dot, Lit (CHR '']'')]"

definition trailing_dots_re :: regex where
  "trailing_dots_re = cat [many1 (Lit (CHR ''.'')), Eol]"

definition protocol_re :: regex where
  "protocol_re = cat [Bol, lit ''http'', optional (Lit (CHR ''s'')), lit ''://'']"

definition label_re :: regex where
  "label_re =
     cat [Cls False (az @ d09),
          optional (Grp 1 (cat [many (Cls False (az @ d09 @ chars ''-'')), Cls False (az @ d09)]))]"

definition hostname_re :: regex where
  "hostname_re = cat [Bol, label_re, many (Grp 2 (cat [Lit (CHR ''.''), label_re])), Eol]"

record ValidatedHost =
  isValid :: bool
  normalizedHost :: string
  etldPlusOne :: string

text \<open>\<open>s.split(c)[0]\<close>.\<close>

definition first_piece :: "char \<Rightarrow> string \<Rightarrow> string" where
  "first_piece c s = hd (split_on c s)"

text \<open>
  The normalisation at the head of \<open>validateHost\<close>: lower case, trimmed, trailing dots
  removed, a leading scheme removed, cut at the first \<open>/\<close>, \<open>?\<close> and \<open>#\<close>; then the
  port is cut off at the first colon.
\<close>

definition normalize_host :: "string \<Rightarrow> string" where
  "normalize_host host =
     (let normalized = replace_first trailing_dots_re False [] (trim (toLowerCase host));
          normalized = replace_first protocol_re True [] normalized
      in first_piece (CHR ''#'') (first_piece (CHR ''?'') (first_piece (CHR ''/'') normalized)))"

definition strip_port :: "string \<Rightarrow> string" where
  "strip_port normalized = first_piece (CHR '':'') normalized"

definition validateHost :: "(string \<Rightarrow> psl_result) \<Rightarrow> string \<Rightarrow> backend_error + ValidatedHost" where
  "validateHost psl_parse host =
     (if host = [] then Inl (BadRequestException ''Host is required and must be a string'')
      else
        let hostWithoutPort = strip_port (normalize_host host)
        in if isIP hostWithoutPort \<noteq> 0
           then Inl (BadRequestException ''IP addresses are not allowed. Please use a domain name.'')
           else if regex_test bracket_re False hostWithoutPort
           then Inl (BadRequestException ''IPv6 addresses are not allowed. Please use a domain name.'')
           else if list_ex (\<lambda>p. regex_test (fst p) (snd p) hostWithoutPort) DANGEROUS_PATTERNS
           then Inl (BadRequestException
                  ''This host appears to be an internal or reserved address and cannot be scanned.'')
           else if \<not> regex_test hostname_re True hostWithoutPort
           then Inl (BadRequestException
                  ''Invalid hostname format. Only alphanumeric characters, hyphens, and dots are allowed.'')
           else
             let parts = split_on (CHR ''.'') hostWithoutPort;
                 tld = last parts
             in if tld \<in> set BLOCKED_TLDS
                then Inl (BadRequestException
                       (''The TLD \".'' @ tld @ ''\" is not allowed. Please use a public domain.''))
                else
                  (case psl_parse hostWithoutPort of
                     PslError msg \<Rightarrow>
                       Inl (BadRequestException
                              (''Invalid domain: '' @
                               (case msg of None \<Rightarrow> ''Parse error''
                                | Some m \<Rightarrow> if m = [] then ''Parse error'' else m)))
                   | PslParsed parsedDomain listed \<Rightarrow>
                       (case parsedDomain of
                          None \<Rightarrow>
                            Inl (BadRequestException
                                   ''Could not extract a valid domain from the provided host.'')
                        | Some d \<Rightarrow>
                            if d = []
                            then Inl (BadRequestException
                                   ''Could not extract a valid domain from the provided host.'')
                            else if \<not> listed
                            then Inl (BadRequestException
                                   ''The domain does not appear to be on a valid public suffix list.'')
                            else Inr \<lparr>isValid = True, normalizedHost = hostWithoutPort,
                                      etldPlusOne = d\<rparr>)))"

text \<open>
  What the claims about IP literals speak of: the texts \<open>net.isIP\<close> accepts, and an IPv6
  address in brackets; and parse results without a registrable domain.
\<close>

definition ip_literal :: "string \<Rightarrow> bool" where
  "ip_literal x =
     (isIPv4 x \<or> isIPv6 x \<or>
      (case x of
         [] \<Rightarrow> False
       | c # cs \<Rightarrow> c = CHR ''['' \<and> cs \<noteq> [] \<and> last cs = CHR '']'' \<and> isIPv6 (butlast cs)))"

definition no_registrable_domain :: "psl_result \<Rightarrow> bool" where
  "no_registrable_domain r = (case r of PslError _ \<Rightarrow> True | PslParsed d _ \<Rightarrow> d = None)"

section \<open>The SSRF guard (backend, ssrf-guard.service.ts)\<close>

text \<open>
  \<open>ipToNumber\<close>.  \<open>parts[i] << k\<close> converts to a 32-bit integer (\<open>NaN\<close> and a missing
  part to 0), shifts within 32 bits and reads the result as signed; the sum is taken on
  numbers, so a \<open>NaN\<close> or missing last part makes it \<open>NaN\<close>; \<open>>>> 0\<close> reads the sum
  modulo \<open>2^32\<close> as unsigned, and \<open>NaN\<close> as 0.
\<close>

definition shl32 :: "int option \<Rightarrow> nat \<Rightarrow> int" where
  "shl32 v k = (case v of None \<Rightarrow> 0 | Some n \<Rightarrow> sint (push_bit k (word_of_int n :: 32 word)))"

definition part :: "int option list \<Rightarrow> nat \<Rightarrow> int option" where
  "part parts i = (if i < length parts then parts ! i else None)"

definition ipToNumber :: "string \<Rightarrow> int" where
  "ipToNumber ip =
     (let parts = map js_Number (split_on (CHR ''.'') ip)
      in case part parts 3 of
           None \<Rightarrow> 0
         | Some p3 \<Rightarrow>
             uint (word_of_int
                     (shl32 (part parts 0) 24 + shl32 (part parts 1) 16 + shl32 (part parts 2) 8 + p3)
                   :: 32 word))"

definition BLOCKED_IP_RANGES :: "(int \<times> int) list" where
  "BLOCKED_IP_RANGES =
     [(ipToNumber ''0.0.0.0'', ipToNumber ''0.255.255.255''),
      (ipToNumber ''10.0.0.0'', ipToNumber ''10.255.255.255''),
      (ipToNumber ''100.64.0.0'', ipToNumber ''100.127.255.255''),
      (ipToNumber ''127.0.0.0'', ipToNumber ''127.255.255.255''),
      (ipToNumber ''169.254.0.0'', ipToNumber ''169.254.255.255''),
      (ipToNumber ''172.16.0.0'', ipToNumber ''172.31.255.255''),
      (ipToNumber ''192.0.0.0'', ipToNumber ''192.0.0.255''),
      (ipToNumber ''192.0.2.0'', ipToNumber ''192.0.2.255''),
      (ipToNumber ''192.168.0.0'', ipToNumber ''192.168.255.255''),
      (ipToNumber ''198.18.0.0'', ipToNumber ''198.19.255.255''),
      (ipToNumber ''198.51.100.0'', ipToNumber ''198.51.100.255''),
      (ipToNumber ''203.0.113.0'', ipToNumber ''203.0.113.255''),
      (ipToNumber ''224.0.0.0'', ipToNumber ''239.255.255.255''),
      (ipToNumber ''240.0.0.0'', ipToNumber ''255.255.255.255'')]"

definition isPrivateIPv4 :: "string \<Rightarrow> bool" where
  "isPrivateIPv4 ip =
     (let ipNum = ipToNumber ip
      in list_ex (\<lambda>range. ipNum \<ge> fst range \<and> ipNum \<le> snd range) BLOCKED_IP_RANGES)"

definition isPrivateIPv6 :: "string \<Rightarrow> bool" where
  "isPrivateIPv6 ip =
     (let normalized = toLowerCase ip
      in normalized = ''::1'' \<or>
         startsWith normalized ''fe80:'' \<or>
         startsWith normalized ''fc'' \<or>
         startsWith normalized ''fd'' \<or>
         startsWith normalized ''::ffff:127.'' \<or>
         startsWith normalized ''::ffff:10.'' \<or>
         startsWith normalized ''::ffff:172.'' \<or>
         startsWith normalized ''::ffff:192.168.'')"

definition private_address_message :: "string \<Rightarrow> string" where
  "private_address_message hostname =
     ''The host \"'' @ hostname @ ''\" resolves to a private/internal IP address and cannot be accessed.''"

definition unresolvable_message :: "string \<Rightarrow> string" where
  "unresolvable_message hostname =
     ''Could not resolve DNS for \"'' @ hostname @
     ''\". The domain may not exist or have no A/AAAA records.''"

text \<open>
  The outcome of one \<open>dns.resolve4\<close> or \<open>dns.resolve6\<close> query: the addresses, or a
  resolver error (\<open>NXDOMAIN\<close> and the like) with its message.
\<close>

datatype dns_outcome = Addresses "string list" | DnsError string

text \<open>
  The loop over the addresses of one family: the first private address throws, the
  addresses before it have been pushed.
\<close>

fun collect_public :: "(string \<Rightarrow> bool) \<Rightarrow> string \<Rightarrow> string list \<Rightarrow> string list \<Rightarrow> backend_error + string list" where
  "collect_public isPrivate hostname acc [] = Inr acc"
| "collect_public isPrivate hostname acc (ip # ips) =
     (if isPrivate ip then Inl (BadRequestException (private_address_message hostname))
      else collect_public isPrivate hostname (acc @ [ip]) ips)"

text \<open>
  One \<open>try\<close> block of \<open>validateDnsResolution\<close>: a \<open>BadRequestException\<close> is thrown
  again, any other error of the query is logged and leaves the list as it is.
\<close>

definition resolve_family :: "(string \<Rightarrow> bool) \<Rightarrow> string \<Rightarrow> dns_outcome \<Rightarrow> backend_error + string list" where
  "resolve_family isPrivate hostname r =
     (case r of
        DnsError m \<Rightarrow> Inr []
      | Addresses ips \<Rightarrow> collect_public isPrivate hostname [] ips)"

text \<open>
  \<open>validateDnsResolution\<close>.  The host validator is the injected service; \<open>r4\<close> and \<open>r6\<close>
  are what the two queries for the host name answer.
\<close>

definition validateDnsResolution ::
  "(string \<Rightarrow> backend_error + 'v) \<Rightarrow> string \<Rightarrow> dns_outcome \<Rightarrow> dns_outcome \<Rightarrow>
   backend_error + (string list \<times> string list)" where
  "validateDnsResolution hostValidator hostname r4 r6 =
     (case hostValidator hostname of
        Inl e \<Rightarrow> Inl e
      | Inr _ \<Rightarrow>
          (case resolve_family isPrivateIPv4 hostname r4 of
             Inl e \<Rightarrow> Inl e
           | Inr ipv4Addresses \<Rightarrow>
               (case resolve_family isPrivateIPv6 hostname r6 of
                  Inl e \<Rightarrow> Inl e
                | Inr ipv6Addresses \<Rightarrow>
                    if length ipv4Addresses = 0 \<and> length ipv6Addresses = 0
                    then Inl (BadRequestException (unresolvable_message hostname))
                    else Inr (ipv4Addresses, ipv6Addresses))))"

text \<open>
  The blocked ranges as the specification lists them, in CIDR notation over the four
  octets of an address, and the dotted text of an address as a resolver returns it.
\<close>

definition octets_value :: "nat \<times> nat \<times> nat \<times> nat \<Rightarrow> nat" where
  "octets_value q = (case q of (a, b, c, d) \<Rightarrow> a * 16777216 + b * 65536 + c * 256 + d)"

definition in_cidr :: "nat \<times> nat \<times> nat \<times> nat \<Rightarrow> (nat \<times> nat \<times> nat \<times> nat) \<times> nat \<Rightarrow> bool" where
  "in_cidr q r = (octets_value q div 2 ^ (32 - snd r) = octets_value (fst r) div 2 ^ (32 - snd r))"

definition spec_blocked_cidrs :: "((nat \<times> nat \<times> nat \<times> nat) \<times> nat) list" where
  "spec_blocked_cidrs =
     [((0, 0, 0, 0), 8), ((10, 0, 0, 0), 8), ((100, 64, 0, 0), 10), ((127, 0, 0, 0), 8),
      ((169, 254, 0, 0), 16), ((172, 16, 0, 0), 12), ((192, 0, 0, 0), 24), ((192, 0, 2, 0), 24),
      ((192, 168, 0, 0), 16), ((198, 18, 0, 0), 15), ((198, 51, 100, 0), 24),
      ((203, 0, 113, 0), 24), ((224, 0, 0, 0), 4), ((240, 0, 0, 0), 4)]"

definition spec_blocked_ipv4 :: "nat \<times> nat \<times> nat \<times> nat \<Rightarrow> bool" where
  "spec_blocked_ipv4 q = list_ex (in_cidr q) spec_blocked_cidrs"

definition is_octets :: "nat \<times> nat \<times> nat \<times> nat \<Rightarrow> bool" where
  "is_octets q = (case q of (a, b, c, d) \<Rightarrow> a < 256 \<and> b < 256 \<and> c < 256 \<and> d < 256)"

definition dotted :: "nat \<times> nat \<times> nat \<times> nat \<Rightarrow> string" where
  "dotted q = (case q of (a, b, c, d) \<Rightarrow>
     show_nat a @ ''.'' @ show_nat b @ ''.'' @ show_nat c @ ''.'' @ show_nat d)"

section \<open>The redaction service (backend, redaction.service.ts)\<close>

text \<open>
  Four patterns are written out in both the backend's redaction service and the worker's
  \<open>redactOutput\<close>: e-mail addresses, JWTs, AWS access keys and private key blocks.
\<close>

definition email_re :: regex where
  "email_re =
     cat [many1 (Cls False (alnum @ chars ''._%+-'')), Lit (CHR ''@''),
          many1 (Cls False (alnum @ chars ''.-'')), Lit (CHR ''.''),
          at_least 2 (Cls False (az @ AZ))]"

definition jwt_re :: regex where
  "jwt_re =
     cat [lit ''eyJ'', many (Cls False (alnum @ chars ''_-'')), lit ''.eyJ'',
          many (Cls False (alnum @ chars ''_-'')), Lit (CHR ''.''),
          many (Cls False (alnum @ chars ''_-''))]"

definition aws_access_key_re :: regex where
  "aws_access_key_re = cat [lit ''AKIA'', Rep 16 (Some 16) True (Cls False (d09 @ AZ))]"

definition private_key_re :: regex where
  "private_key_re =
     cat [lit ''-----BEGIN'', many1 wsp, optional (Grp 1 (cat [lit ''RSA'', many1 wsp])),
          lit ''PRIVATE KEY-----'', Rep 0 None False (Cls True []),
          lit ''-----END'', many1 wsp, optional (Grp 2 (cat [lit ''RSA'', many1 wsp])),
          lit ''PRIVATE KEY-----'']"


record redaction_pattern =
  name :: string
  pattern :: regex
  ignoreCase :: bool
  replacement :: "repl_item list"


record redaction_result =
  redacted :: string
  redactionCount :: nat




section \<open>JSON text\<close>

text \<open>
  \<open>JSON.stringify(value, null, 2)\<close> on the values the tool executor builds: strings,
  integers, arrays and objects (an object as the list of its defined properties in
  insertion order; a property whose value is \<open>undefined\<close> is not in the list).
\<close>

datatype json = JNull | JBool bool | JNum int | JStr string | JArr "json list" | JObj "(string \<times> json) list"

definition hex_digit_char :: "nat \<Rightarrow> char" where
  "hex_digit_char d = (if d < 10 then char_of (48 + d) else char_of (87 + d))"

definition quote_char :: "char \<Rightarrow> string" where
  "quote_char c =
     (let n = (of_char c :: nat)
      in if n = 8 then [CHR 0x5C, CHR ''b''] else if n = 9 then [CHR 0x5C, CHR ''t''] else if n = 10 then [CHR 0x5C, CHR ''n'']
         else if n = 12 then [CHR 0x5C, CHR ''f''] else if n = 13 then [CHR 0x5C, CHR ''r'']
         else if n = 34 then [CHR 0x5C, CHR 0x22] else if n = 92 then [CHR 0x5C, CHR 0x5C]
         else if n < 32 then [CHR 0x5C] @ ''u00'' @ [hex_digit_char (n div 16), hex_digit_char (n mod 16)]
         else [c])"

definition quote_json :: "string \<Rightarrow> string" where
  "quote_json s = [CHR 0x22] @ concat (map quote_char s) @ [CHR 0x22]"

fun stringify :: "string \<Rightarrow> json \<Rightarrow> string" where
  "stringify ind JNull = ''null''"
| "stringify ind (JBool b) = (if b then ''true'' else ''false'')"
| "stringify ind (JNum n) = show_int n"
| "stringify ind (JStr s) = quote_json s"
| "stringify ind (JArr xs) =
     (if xs = [] then ''[]''
      else ''['' @ [CHR 0x0A] @
           join ('','' @ [CHR 0x0A]) (map (\<lambda>x. ind @ ''  '' @ stringify (ind @ ''  '') x) xs) @
           [CHR 0x0A] @ ind @ '']'')"
| "stringify ind (JObj kvs) =
     (if kvs = [] then ''{}''
      else ''{'' @ [CHR 0x0A] @
           join ('','' @ [CHR 0x0A])
             (map (\<lambda>kv. ind @ ''  '' @ quote_json (fst kv) @ '': '' @ stringify (ind @ ''  '') (snd kv)) kvs) @
           [CHR 0x0A] @ ind @ ''}'')"

definition JSON_stringify :: "json \<Rightarrow> string" where
  "JSON_stringify v = stringify [] v"

section \<open>The tool executor (packages/worker/src/tools/executor.ts)\<close>

text \<open>
  Modelled from the spec: the enumeration \<open>ToolName\<close> of the Prisma schema, which is not
  among the sources; its values are those of the executor's \<open>switch\<close>.
\<close>

datatype ToolName =
    TLS_CHECK | HEADER_CHECK | SECURITY_HEADERS | CORS_CHECK | DNS_LOOKUP
  | CERT_TRANSPARENCY | TECH_FINGERPRINT

record ExecutionParams =
  toolRunId :: string
  assessmentId :: string
  toolName :: ToolName
  target :: string

record ExecutionResult =
  success :: bool
  summary :: string
  stdoutRef :: "string option"
  stderrRef :: "string option"
  exitCode :: int
  requestsCounted :: int

text \<open>
  What the executor works on: the rate limiter, the clock, and the objects written to
  the blob store so far, each with its key.  The store accepts every upload.
\<close>

record world =
  limiter :: RateLimiter
  clock :: int
  uploads :: "(string \<times> string) list"

text \<open>
  The outcome of one outbound operation when it is raced against the timer of
  \<open>withTimeout\<close>: it resolves or rejects before the timer fires, or it is still pending
  when the timer fires.
\<close>

datatype 'a outcome = Resolves 'a | Rejects js_error | Pending

type_synonym headers = "(string \<times> string) list"

text \<open>
  The network and the platform as the executor sees them: the commands it runs, the
  requests it makes, and the host name the \<open>URL\<close> constructor finds in a string
  (\<open>None\<close> when it throws).  Header records have lower-case names, each once.
\<close>

record probe_env =
  execAsync :: "string \<Rightarrow> (string \<times> string) outcome"
  fetchHeaders :: "string \<Rightarrow> headers outcome"
  fetchHeadersWithOrigin :: "string \<Rightarrow> string \<Rightarrow> headers outcome"
  fetchJson :: "string \<Rightarrow> json outcome"
  url_hostname :: "string \<Rightarrow> string option"

definition timeout_message :: "RateLimiterConfig \<Rightarrow> js_error" where
  "timeout_message cfg = ''Tool execution timed out after '' @ show_int (timeoutMs cfg) @ ''ms''"

definition withTimeout :: "RateLimiterConfig \<Rightarrow> 'a outcome \<Rightarrow> js_error + 'a" where
  "withTimeout cfg p =
     (case p of
        Resolves v \<Rightarrow> Inr v
      | Rejects e \<Rightarrow> Inl e
      | Pending \<Rightarrow> Inl (timeout_message cfg))"

definition requestSlot :: "RateLimiterConfig \<Rightarrow> string \<Rightarrow> world \<Rightarrow> (js_error + int) \<times> world" where
  "requestSlot cfg runId w =
     (case waitForRequestSlot cfg runId (clock w) (limiter w) of
        (r, rl, now) \<Rightarrow> (r, w\<lparr>limiter := rl, clock := now\<rparr>))"

text \<open>\<open>storage.uploadToolOutput\<close>: the object is stored under its key, which is returned.\<close>

definition uploadToolOutput :: "string \<Rightarrow> string \<Rightarrow> string \<Rightarrow> string \<Rightarrow> world \<Rightarrow> string \<times> world" where
  "uploadToolOutput assessment run content kind w =
     (let key = assessment @ ''/'' @ run @ ''/'' @ kind @ ''.txt''
      in (key, w\<lparr>uploads := uploads w @ [(key, content)]\<rparr>))"

definition redactOutput :: "string \<Rightarrow> string" where
  "redactOutput output =
     replace_all private_key_re False [Text ''[REDACTED_PRIVATE_KEY]'']
       (replace_all aws_access_key_re False [Text ''[REDACTED_AWS_KEY]'']
          (replace_all jwt_re False [Text ''[REDACTED_JWT]'']
             (replace_all email_re False [Text ''[REDACTED_EMAIL]''] output)))"

definition with_scheme :: "string \<Rightarrow> string" where
  "with_scheme t = (if startsWith t ''http'' then t else ''https://'' @ t)"

definition extractHost :: "probe_env \<Rightarrow> string \<Rightarrow> string" where
  "extractHost env t =
     (case url_hostname env (with_scheme t) of
        Some h \<Rightarrow> h
      | None \<Rightarrow> first_piece (CHR '':'') (first_piece (CHR ''/'') t))"

definition failed_result :: "string \<Rightarrow> ExecutionResult" where
  "failed_result s =
     \<lparr>success = False, summary = s, stdoutRef = None, stderrRef = None, exitCode = 1,
      requestsCounted = 1\<rparr>"

definition ok_result :: "string \<Rightarrow> string \<Rightarrow> int \<Rightarrow> ExecutionResult" where
  "ok_result s ref n =
     \<lparr>success = True, summary = s, stdoutRef = Some ref, stderrRef = None, exitCode = 0,
      requestsCounted = n\<rparr>"

text \<open>\<open>lines.find(l => l.includes(key))?.trim() || dflt\<close>.\<close>

definition find_line :: "string \<Rightarrow> string list \<Rightarrow> string \<Rightarrow> string" where
  "find_line key lines dflt =
     (case find (\<lambda>l. includes_str l key) lines of
        None \<Rightarrow> dflt
      | Some l \<Rightarrow> if trim l = [] then dflt else trim l)"

definition parseTlsSummary :: "string \<Rightarrow> string" where
  "parseTlsSummary output =
     (let lines = split_on (CHR 0x0A) output;
          issuer = find_line ''Issuer:'' lines ''Unknown issuer'';
          subject = find_line ''Subject:'' lines ''Unknown subject'';
          notAfter = find_line ''Not After'' lines ''''
      in take 500 (subject @ ''. '' @ issuer @ ''. '' @ notAfter))"

definition executeTlsCheck :: "RateLimiterConfig \<Rightarrow> probe_env \<Rightarrow> ExecutionParams \<Rightarrow> world \<Rightarrow> (js_error + ExecutionResult) \<times> world" where
  "executeTlsCheck cfg env params w =
     (case requestSlot cfg (toolRunId params) w of
        (Inl e, w1) \<Rightarrow> (Inl e, w1)
      | (Inr _, w1) \<Rightarrow>
          (let host = extractHost env (target params);
               command = ''echo | openssl s_client -connect '' @ host @ '':443 -servername '' @ host @
                         '' 2>&1 | openssl x509 -noout -text 2>&1 || true''
           in case withTimeout cfg (execAsync env command) of
                Inl e \<Rightarrow> (Inr (failed_result (''TLS check failed: '' @ e)), w1)
              | Inr (stdout, stderr) \<Rightarrow>
                  (let output = stdout @ (if stderr \<noteq> [] then [CHR 0x0A, CHR 0x0A] @ ''STDERR:'' @ [CHR 0x0A] @ stderr else []);
                       redacted = redactOutput output
                   in case uploadToolOutput (assessmentId params) (toolRunId params) redacted ''stdout'' w1 of
                        (ref, w2) \<Rightarrow> (Inr (ok_result (parseTlsSummary output) ref 1), w2))))"

definition header_lines :: "headers \<Rightarrow> string" where
  "header_lines hs = join [CHR 0x0A] (map (\<lambda>kv. fst kv @ '': '' @ snd kv) hs)"

definition executeHeaderCheck :: "RateLimiterConfig \<Rightarrow> probe_env \<Rightarrow> ExecutionParams \<Rightarrow> world \<Rightarrow> (js_error + ExecutionResult) \<times> world" where
  "executeHeaderCheck cfg env params w =
     (case requestSlot cfg (toolRunId params) w of
        (Inl e, w1) \<Rightarrow> (Inl e, w1)
      | (Inr _, w1) \<Rightarrow>
          (case withTimeout cfg (fetchHeaders env (with_scheme (target params))) of
             Inl e \<Rightarrow> (Inr (failed_result (''Header check failed: '' @ e)), w1)
           | Inr hs \<Rightarrow>
               (let output = header_lines hs;
                    redacted = redactOutput output
                in case uploadToolOutput (assessmentId params) (toolRunId params) redacted ''stdout'' w1 of
                     (ref, w2) \<Rightarrow>
                       (Inr (ok_result (''Retrieved '' @ show_nat (length hs) @ '' response headers'') ref 1),
                        w2))))"

text \<open>\<open>headers[name]\<close> read as a condition: the header is there and not empty.\<close>

definition truthy_header :: "headers \<Rightarrow> string \<Rightarrow> bool" where
  "truthy_header hs k = (case map_of hs k of None \<Rightarrow> False | Some v \<Rightarrow> v \<noteq> [])"

definition header_text :: "headers \<Rightarrow> string \<Rightarrow> string" where
  "header_text hs k = (case map_of hs k of None \<Rightarrow> [] | Some v \<Rightarrow> v)"

definition securityHeaders :: "(string \<times> int) list" where
  "securityHeaders =
     [(''strict-transport-security'', 10), (''content-security-policy'', 15),
      (''x-content-type-options'', 10), (''x-frame-options'', 10), (''x-xss-protection'', 5),
      (''referrer-policy'', 10), (''permissions-policy'', 10),
      (''cross-origin-embedder-policy'', 10), (''cross-origin-opener-policy'', 10),
      (''cross-origin-resource-policy'', 10)]"

record header_analysis =
  present :: "string list"
  missing :: "string list"
  issues :: "string list"
  score :: int

definition analyzeSecurityHeaders :: "headers \<Rightarrow> header_analysis" where
  "analyzeSecurityHeaders hs =
     \<lparr>present = map fst (filter (\<lambda>hp. truthy_header hs (fst hp)) securityHeaders),
      missing = map fst (filter (\<lambda>hp. \<not> truthy_header hs (fst hp)) securityHeaders),
      issues =
        (if truthy_header hs ''server'' then [''Server header exposes: '' @ header_text hs ''server''] else []) @
        (if truthy_header hs ''x-powered-by''
         then [''X-Powered-By exposes: '' @ header_text hs ''x-powered-by''] else []) @
        (if truthy_header hs ''strict-transport-security'' \<and>
            \<not> includes_str (header_text hs ''strict-transport-security'') ''includeSubDomains''
         then [''HSTS missing includeSubDomains directive''] else []),
      score = sum_list (map snd (filter (\<lambda>hp. truthy_header hs (fst hp)) securityHeaders))\<rparr>"

definition analysis_json :: "header_analysis \<Rightarrow> json" where
  "analysis_json a =
     JObj [(''present'', JArr (map JStr (present a))), (''missing'', JArr (map JStr (missing a))),
           (''issues'', JArr (map JStr (issues a))), (''score'', JNum (score a))]"

definition executeSecurityHeaders :: "RateLimiterConfig \<Rightarrow> probe_env \<Rightarrow> ExecutionParams \<Rightarrow> world \<Rightarrow> (js_error + ExecutionResult) \<times> world" where
  "executeSecurityHeaders cfg env params w =
     (case requestSlot cfg (toolRunId params) w of
        (Inl e, w1) \<Rightarrow> (Inl e, w1)
      | (Inr _, w1) \<Rightarrow>
          (case withTimeout cfg (fetchHeaders env (with_scheme (target params))) of
             Inl e \<Rightarrow> (Inr (failed_result (''Security headers check failed: '' @ e)), w1)
           | Inr hs \<Rightarrow>
               (let analysis = analyzeSecurityHeaders hs;
                    output = JSON_stringify (analysis_json analysis)
                in case uploadToolOutput (assessmentId params) (toolRunId params) output ''stdout'' w1 of
                     (ref, w2) \<Rightarrow>
                       (Inr (ok_result
                               (''Security headers: '' @ show_nat (length (present analysis)) @
                                '' present, '' @ show_nat (length (missing analysis)) @
                                '' missing. Score: '' @ show_int (score analysis) @ ''/100'') ref 1),
                        w2))))"


text \<open>
  One entry of the results of the CORS check: the four response headers read for a test
  origin (\<open>None\<close> for a header that is \<open>undefined\<close>), or the message of the error.
\<close>

datatype cors_entry =
    CorsAnswer string "string option" "string option" "string option" "string option"
  | CorsFailure string string

fun cors_origin :: "cors_entry \<Rightarrow> string" where
  "cors_origin (CorsAnswer origin _ _ _ _) = origin"
| "cors_origin (CorsFailure origin _) = origin"

fun allowOrigin :: "cors_entry \<Rightarrow> string option" where
  "allowOrigin (CorsAnswer _ ao _ _ _) = ao"
| "allowOrigin (CorsFailure _ _) = None"

fun allowCredentials :: "cors_entry \<Rightarrow> string option" where
  "allowCredentials (CorsAnswer _ _ ac _ _) = ac"
| "allowCredentials (CorsFailure _ _) = None"

definition defined_props :: "(string \<times> string option) list \<Rightarrow> (string \<times> json) list" where
  "defined_props kvs =
     concat (map (\<lambda>kv. case snd kv of None \<Rightarrow> [] | Some v \<Rightarrow> [(fst kv, JStr v)]) kvs)"

fun cors_json :: "cors_entry \<Rightarrow> json" where
  "cors_json (CorsAnswer origin ao ac am ah) =
     JObj ((''origin'', JStr origin) #
           defined_props [(''allowOrigin'', ao), (''allowCredentials'', ac),
                          (''allowMethods'', am), (''allowHeaders'', ah)])"
| "cors_json (CorsFailure origin e) = JObj [(''origin'', JStr origin), (''error'', JStr e)]"

text \<open>
  The loop over the test origins: a request slot is awaited before each request (its
  error leaves the loop and the probe), the request is raced against the timer, and its
  error becomes an entry of the results.
\<close>

fun cors_requests :: "RateLimiterConfig \<Rightarrow> probe_env \<Rightarrow> string \<Rightarrow> string \<Rightarrow> string list \<Rightarrow> cors_entry list \<Rightarrow> world \<Rightarrow> (js_error + cors_entry list) \<times> world" where
  "cors_requests cfg env runId url [] results w = (Inr results, w)"
| "cors_requests cfg env runId url (origin # origins) results w =
     (case requestSlot cfg runId w of
        (Inl e, w1) \<Rightarrow> (Inl e, w1)
      | (Inr _, w1) \<Rightarrow>
          (case withTimeout cfg (fetchHeadersWithOrigin env url origin) of
             Inl e \<Rightarrow> cors_requests cfg env runId url origins (results @ [CorsFailure origin e]) w1
           | Inr hs \<Rightarrow>
               cors_requests cfg env runId url origins
                 (results @ [CorsAnswer origin (map_of hs ''access-control-allow-origin'')
                               (map_of hs ''access-control-allow-credentials'')
                               (map_of hs ''access-control-allow-methods'')
                               (map_of hs ''access-control-allow-headers'')]) w1))"

definition show_bool :: "bool \<Rightarrow> string" where
  "show_bool b = (if b then ''true'' else ''false'')"

definition executeCorsCheck :: "RateLimiterConfig \<Rightarrow> probe_env \<Rightarrow> ExecutionParams \<Rightarrow> world \<Rightarrow> (js_error + ExecutionResult) \<times> world" where
  "executeCorsCheck cfg env params w =
     (case requestSlot cfg (toolRunId params) w of
        (Inl e, w1) \<Rightarrow> (Inl e, w1)
      | (Inr _, w1) \<Rightarrow>
          (let url = with_scheme (target params);
               testOrigins = [''https://evil.com'', ''null'', ''https://example.com'']
           in case cors_requests cfg env (toolRunId params) url testOrigins [] w1 of
                (Inl e, w2) \<Rightarrow> (Inl e, w2)
              | (Inr results, w2) \<Rightarrow>
                  (let output = JSON_stringify (JArr (map cors_json results))
                   in case uploadToolOutput (assessmentId params) (toolRunId params) output ''stdout'' w2 of
                        (ref, w3) \<Rightarrow>
                          (let hasWildcard = list_ex (\<lambda>r. allowOrigin r = Some ''*'') results;
                               reflectsOrigin =
                                 list_ex (\<lambda>r. allowOrigin r = Some (cors_origin r) \<and> cors_origin r \<noteq> ''null'') results;
                               severity0 = (if hasWildcard then ''medium'' else ''info'');
                               severity =
                                 (if reflectsOrigin \<and> list_ex (\<lambda>r. allowCredentials r = Some ''true'') results
                                  then ''high'' else severity0)
                           in (Inr (ok_result
                                      (''CORS check complete. Severity: '' @ severity @ ''. Wildcard: '' @
                                       show_bool hasWildcard @ '', Reflects origin: '' @ show_bool reflectsOrigin)
                                      ref (int (length testOrigins) + 1)),
                               w3)))))"

text \<open>
  The loop over the record types of the DNS lookup.  A failed or timed-out query is
  skipped; an answer is trimmed, split into lines, and kept when a line is left.
\<close>

fun dns_queries :: "RateLimiterConfig \<Rightarrow> probe_env \<Rightarrow> string \<Rightarrow> string \<Rightarrow> string list \<Rightarrow> (string \<times> string list) list \<Rightarrow> world \<Rightarrow> (js_error + (string \<times> string list) list) \<times> world" where
  "dns_queries cfg env runId host [] results w = (Inr results, w)"
| "dns_queries cfg env runId host (type # types) results w =
     (case requestSlot cfg runId w of
        (Inl e, w1) \<Rightarrow> (Inl e, w1)
      | (Inr _, w1) \<Rightarrow>
          (case withTimeout cfg (execAsync env (''dig +short '' @ type @ '' '' @ host)) of
             Inl e \<Rightarrow> dns_queries cfg env runId host types results w1
           | Inr (stdout, stderr) \<Rightarrow>
               (let records = filter (\<lambda>l. l \<noteq> []) (split_on (CHR 0x0A) (trim stdout))
                in dns_queries cfg env runId host types
                     (if length records > 0 then AList.update type records results else results) w1)))"

definition executeDnsLookup :: "RateLimiterConfig \<Rightarrow> probe_env \<Rightarrow> ExecutionParams \<Rightarrow> world \<Rightarrow> (js_error + ExecutionResult) \<times> world" where
  "executeDnsLookup cfg env params w =
     (let host = extractHost env (target params);
          recordTypes = [''A'', ''AAAA'', ''CNAME'', ''MX'', ''TXT'', ''NS'']
      in case dns_queries cfg env (toolRunId params) host recordTypes [] w of
           (Inl e, w1) \<Rightarrow> (Inl e, w1)
         | (Inr results, w1) \<Rightarrow>
             (let output = JSON_stringify (JObj (map (\<lambda>kv. (fst kv, JArr (map JStr (snd kv)))) results))
              in case uploadToolOutput (assessmentId params) (toolRunId params) output ''stdout'' w1 of
                   (ref, w2) \<Rightarrow>
                     (let totalRecords = length (concat (map snd results))
                      in (Inr (ok_result
                                 (''DNS lookup complete. Found '' @ show_nat totalRecords @
                                  '' records across '' @ show_nat (length results) @ '' types.'')
                                 ref (int (length recordTypes))),
                          w2))))"

text \<open>
  The certificate-transparency answer is whatever JSON the log service returns.  For one
  element of the array, \<open>cert.name_value || ''\<close> split into lines: reading the property
  of \<open>null\<close> throws, and so does splitting a value that is not a string; the messages are
  those of the JavaScript engine.
\<close>

definition cert_names :: "json \<Rightarrow> js_error + string list" where
  "cert_names cert =
     (case cert of
        JNull \<Rightarrow> Inl ''Cannot read properties of null (reading 'name_value')''
      | JObj kvs \<Rightarrow>
          (case map_of kvs ''name_value'' of
             None \<Rightarrow> Inr [[]]
           | Some JNull \<Rightarrow> Inr [[]]
           | Some (JBool b) \<Rightarrow> if b then Inl ''name.split is not a function'' else Inr [[]]
           | Some (JNum n) \<Rightarrow> if n = 0 then Inr [[]] else Inl ''name.split is not a function''
           | Some (JStr s) \<Rightarrow> Inr (split_on (CHR 0x0A) s)
           | Some _ \<Rightarrow> Inl ''name.split is not a function'')
      | _ \<Rightarrow> Inr [[]])"

definition add_subdomains :: "string list \<Rightarrow> string list \<Rightarrow> string list" where
  "add_subdomains subdomains names =
     foldl (\<lambda>acc n. if n \<noteq> [] \<and> \<not> startsWith n ''*'' \<and> toLowerCase n \<notin> set acc
                     then acc @ [toLowerCase n] else acc) subdomains names"

fun collect_subdomains :: "json list \<Rightarrow> string list \<Rightarrow> js_error + string list" where
  "collect_subdomains [] subdomains = Inr subdomains"
| "collect_subdomains (cert # certs) subdomains =
     (case cert_names cert of
        Inl e \<Rightarrow> Inl e
      | Inr names \<Rightarrow> collect_subdomains certs (add_subdomains subdomains names))"

definition executeCertTransparency :: "RateLimiterConfig \<Rightarrow> probe_env \<Rightarrow> ExecutionParams \<Rightarrow> world \<Rightarrow> (js_error + ExecutionResult) \<times> world" where
  "executeCertTransparency cfg env params w =
     (case requestSlot cfg (toolRunId params) w of
        (Inl e, w1) \<Rightarrow> (Inl e, w1)
      | (Inr _, w1) \<Rightarrow>
          (let host = extractHost env (target params);
               fail = (\<lambda>e. (Inr (failed_result (''Certificate transparency lookup failed: '' @ e)), w1))
           in case withTimeout cfg (fetchJson env (''https://crt.sh/?q=%.'' @ host @ ''&output=json'')) of
                Inl e \<Rightarrow> fail e
              | Inr response \<Rightarrow>
                  (let certs = (case response of JArr xs \<Rightarrow> take 50 xs | _ \<Rightarrow> [])
                   in case collect_subdomains certs [] of
                        Inl e \<Rightarrow> fail e
                      | Inr subdomains \<Rightarrow>
                          (let output = JSON_stringify
                                 (JObj [(''domain'', JStr host),
                                        (''certificateCount'', JNum (int (length certs))),
                                        (''uniqueSubdomains'', JArr (map JStr (take 100 subdomains)))])
                           in case uploadToolOutput (assessmentId params) (toolRunId params) output ''stdout'' w1 of
                                (ref, w2) \<Rightarrow>
                                  (Inr (ok_result
                                          (''Found '' @ show_nat (length certs) @ '' certificates and '' @
                                           show_nat (length subdomains) @ '' unique subdomains for '' @ host)
                                          ref 1),
                                   w2)))))"

record technology =
  tech_name :: string
  confidence :: string
  evidence :: string

definition tech :: "string \<Rightarrow> string \<Rightarrow> string \<Rightarrow> technology" where
  "tech n c e = \<lparr>tech_name = n, confidence = c, evidence = e\<rparr>"

definition detectTechnologies :: "headers \<Rightarrow> technology list" where
  "detectTechnologies hs =
     (let server = header_text hs ''server'';
          powered = header_text hs ''x-powered-by'';
          cookies = header_text hs ''set-cookie''
      in (if includes_str server ''nginx'' then [tech ''Nginx'' ''high'' (''Server: '' @ server)] else []) @
         (if includes_str server ''Apache'' then [tech ''Apache'' ''high'' (''Server: '' @ server)] else []) @
         (if includes_str server ''cloudflare'' then [tech ''Cloudflare'' ''high'' (''Server: '' @ server)] else []) @
         (if includes_str server ''AmazonS3'' then [tech ''Amazon S3'' ''high'' (''Server: '' @ server)] else []) @
         (if includes_str powered ''Express'' then [tech ''Express.js'' ''high'' (''X-Powered-By: '' @ powered)] else []) @
         (if includes_str powered ''PHP'' then [tech ''PHP'' ''high'' (''X-Powered-By: '' @ powered)] else []) @
         (if includes_str powered ''ASP.NET'' then [tech ''ASP.NET'' ''high'' (''X-Powered-By: '' @ powered)] else []) @
         (if includes_str powered ''Next.js'' then [tech ''Next.js'' ''high'' (''X-Powered-By: '' @ powered)] else []) @
         (if truthy_header hs ''cf-ray'' then [tech ''Cloudflare'' ''high'' ''cf-ray header present''] else []) @
         (if truthy_header hs ''x-amz-cf-id''
          then [tech ''Amazon CloudFront'' ''high'' ''x-amz-cf-id header present''] else []) @
         (if truthy_header hs ''x-vercel-id'' then [tech ''Vercel'' ''high'' ''x-vercel-id header present''] else []) @
         (if truthy_header hs ''x-cache'' \<and> includes_str (header_text hs ''x-cache'') ''cloudfront''
          then [tech ''Amazon CloudFront'' ''high'' ''x-cache header''] else []) @
         (if includes_str cookies ''AWSALB'' then [tech ''AWS ALB'' ''medium'' ''AWSALB cookie''] else []) @
         (if includes_str cookies ''JSESSIONID'' then [tech ''Java/Servlet'' ''medium'' ''JSESSIONID cookie''] else []))"

definition technology_json :: "technology \<Rightarrow> json" where
  "technology_json t =
     JObj [(''name'', JStr (tech_name t)), (''confidence'', JStr (confidence t)),
           (''evidence'', JStr (evidence t))]"

definition executeTechFingerprint :: "RateLimiterConfig \<Rightarrow> probe_env \<Rightarrow> ExecutionParams \<Rightarrow> world \<Rightarrow> (js_error + ExecutionResult) \<times> world" where
  "executeTechFingerprint cfg env params w =
     (case requestSlot cfg (toolRunId params) w of
        (Inl e, w1) \<Rightarrow> (Inl e, w1)
      | (Inr _, w1) \<Rightarrow>
          (case withTimeout cfg (fetchHeaders env (with_scheme (target params))) of
             Inl e \<Rightarrow> (Inr (failed_result (''Technology fingerprinting failed: '' @ e)), w1)
           | Inr hs \<Rightarrow>
               (let technologies = detectTechnologies hs;
                    output = JSON_stringify (JArr (map technology_json technologies))
                in case uploadToolOutput (assessmentId params) (toolRunId params) output ''stdout'' w1 of
                     (ref, w2) \<Rightarrow>
                       (Inr (ok_result
                               (''Detected '' @ show_nat (length technologies) @ '' technologies/services'')
                               ref 1),
                        w2))))"

text \<open>
  \<open>execute\<close>: the rate state of the run is reset, then the probe named by the job runs.
  The \<open>catch\<close> of \<open>execute\<close> logs an error and throws it again.
\<close>

definition execute :: "RateLimiterConfig \<Rightarrow> probe_env \<Rightarrow> ExecutionParams \<Rightarrow> world \<Rightarrow> (js_error + ExecutionResult) \<times> world" where
  "execute cfg env params w =
     (let w0 = w\<lparr>limiter := resetRunState (toolRunId params) (limiter w)\<rparr>
      in case toolName params of
           TLS_CHECK \<Rightarrow> executeTlsCheck cfg env params w0
         | HEADER_CHECK \<Rightarrow> executeHeaderCheck cfg env params w0
         | SECURITY_HEADERS \<Rightarrow> executeSecurityHeaders cfg env params w0
         | CORS_CHECK \<Rightarrow> executeCorsCheck cfg env params w0
         | DNS_LOOKUP \<Rightarrow> executeDnsLookup cfg env params w0
         | CERT_TRANSPARENCY \<Rightarrow> executeCertTransparency cfg env params w0
         | TECH_FINGERPRINT \<Rightarrow> executeTechFingerprint cfg env params w0)"

section \<open>Tool runs: the stored records, the worker and the cancellation\<close>

text \<open>
  Modelled from the spec: the enumeration \<open>ToolRunStatus\<close> of the Prisma schema, which is
  not among the sources.
\<close>

datatype ToolRunStatus = QUEUED | RUNNING | COMPLETED | FAILED | TIMEOUT | CANCELLED

text \<open>The columns of a tool run that the worker and the service write.\<close>

record ToolRun =
  status :: ToolRunStatus
  startedAt :: "int option"
  finishedAt :: "int option"
  durationMs :: "int option"
  run_stdoutRef :: "string option"
  run_stderrRef :: "string option"
  resultSummary :: "string option"
  run_exitCode :: "int option"
  run_requestCount :: "int option"
  errorMessage :: "string option"

text \<open>
  The table of tool runs, shared by the backend and the worker, and next to it the
  sequence of status values written to it, which the table itself forgets.
\<close>

record run_table =
  rows :: "string \<rightharpoonup> ToolRun"
  statusLog :: "(string \<times> ToolRunStatus) list"

text \<open>\<open>prisma.toolRun.update\<close>: it throws when there is no record with the id.\<close>

definition toolRun_update :: "string \<Rightarrow> (ToolRun \<Rightarrow> ToolRun) \<Rightarrow> run_table \<Rightarrow> js_error + run_table" where
  "toolRun_update runId change t =
     (case rows t runId of
        None \<Rightarrow> Inl ''Record to update not found.''
      | Some r \<Rightarrow>
          Inr \<lparr>rows = (rows t)(runId \<mapsto> change r),
               statusLog = statusLog t @ [(runId, status (change r))]\<rparr>)"

record ToolJobData =
  job_toolRunId :: string
  job_assessmentId :: string
  job_toolName :: ToolName
  job_target :: string

text \<open>
  The \<open>catch\<close> block of the job processor: the error is a timeout when its message
  contains \<open>timeout\<close>; the status is written and the error thrown again.  An error of the
  write itself is the one that leaves the processor.
\<close>

definition job_failed :: "string \<Rightarrow> int \<Rightarrow> js_error \<Rightarrow> world \<times> run_table \<Rightarrow> js_error \<times> world \<times> run_table" where
  "job_failed runId startTime e st =
     (let w = fst st; t = snd st;
          isTimeout = includes_str e ''timeout''
      in case toolRun_update runId
                (\<lambda>r. r\<lparr>status := (if isTimeout then TIMEOUT else FAILED),
                         finishedAt := Some (clock w), durationMs := Some (clock w - startTime),
                         errorMessage := Some e, run_exitCode := Some (- 1)\<rparr>) t of
           Inl e' \<Rightarrow> (e', w, t)
         | Inr t' \<Rightarrow> (e, w, t'))"

text \<open>The \<open>try\<close> block after the execution slot has been taken.\<close>

definition job_body :: "RateLimiterConfig \<Rightarrow> probe_env \<Rightarrow> ToolJobData \<Rightarrow> int \<Rightarrow> world \<times> run_table \<Rightarrow> (js_error + ExecutionResult) \<times> world \<times> run_table" where
  "job_body cfg env job startTime st =
     (let w = fst st; t = snd st; runId = job_toolRunId job
      in case toolRun_update runId (\<lambda>r. r\<lparr>status := RUNNING, startedAt := Some (clock w)\<rparr>) t of
           Inl e \<Rightarrow> (case job_failed runId startTime e (w, t) of (e', st') \<Rightarrow> (Inl e', st'))
         | Inr t1 \<Rightarrow>
             (case execute cfg env
                     \<lparr>toolRunId = runId, assessmentId = job_assessmentId job,
                      toolName = job_toolName job, target = job_target job\<rparr> w of
                (Inl e, w1) \<Rightarrow> (case job_failed runId startTime e (w1, t1) of (e', st') \<Rightarrow> (Inl e', st'))
              | (Inr result, w1) \<Rightarrow>
                  (case toolRun_update runId
                          (\<lambda>r. r\<lparr>status := COMPLETED, finishedAt := Some (clock w1),
                                   durationMs := Some (clock w1 - startTime),
                                   run_stdoutRef := stdoutRef result, run_stderrRef := stderrRef result,
                                   resultSummary := Some (summary result),
                                   run_exitCode := Some (exitCode result),
                                   run_requestCount := Some (requestsCounted result)\<rparr>) t1 of
                     Inl e \<Rightarrow> (case job_failed runId startTime e (w1, t1) of (e', st') \<Rightarrow> (Inl e', st'))
                   | Inr t2 \<Rightarrow> (Inr result, w1, t2))))"

text \<open>
  The job processor of the worker.  It waits for an execution slot (\<open>None\<close>: it never
  gets one), runs the \<open>try\<close> block with its \<open>catch\<close>, and releases the slot in the
  \<open>finally\<close> block.
\<close>

definition processJob :: "RateLimiterConfig \<Rightarrow> probe_env \<Rightarrow> ToolJobData \<Rightarrow> world \<times> run_table \<Rightarrow> ((js_error + ExecutionResult) \<times> world \<times> run_table) option" where
  "processJob cfg env job st =
     (let w = fst st; t = snd st; startTime = clock w
      in case waitForExecutionSlot cfg (limiter w, clock w) of
           None \<Rightarrow> None
         | Some (rl, now) \<Rightarrow>
             (case job_body cfg env job startTime (w\<lparr>limiter := rl, clock := now\<rparr>, t) of
                (r, w1, t1) \<Rightarrow> Some (r, w1\<lparr>limiter := releaseExecutionSlot (limiter w1)\<rparr>, t1)))"

text \<open>\<open>ToolRunsService.findOne\<close> and \<open>ToolRunsService.cancel\<close> of the backend.\<close>

definition findOne :: "string \<Rightarrow> run_table \<Rightarrow> backend_error + ToolRun" where
  "findOne runId t =
     (case rows t runId of
        None \<Rightarrow> Inl (NotFoundException ''Tool run not found'')
      | Some r \<Rightarrow> Inr r)"

definition cancel :: "string \<Rightarrow> int \<Rightarrow> run_table \<Rightarrow> backend_error + run_table" where
  "cancel runId now t =
     (case findOne runId t of
        Inl e \<Rightarrow> Inl e
      | Inr toolRun \<Rightarrow>
          if status toolRun = COMPLETED \<or> status toolRun = FAILED
          then Inl (BadRequestException ''Cannot cancel a completed tool run'')
          else Inr \<lparr>rows = (rows t)(runId \<mapsto> toolRun\<lparr>status := CANCELLED, finishedAt := Some now\<rparr>),
                    statusLog = statusLog t @ [(runId, CANCELLED)]\<rparr>)"


section \<open>Inputs for the evaluations\<close>

text \<open>The configuration the worker builds when no environment variable is set.\<close>

definition default_config :: RateLimiterConfig where
  "default_config = \<lparr>minDelayMs = 1000, maxRequestsPerRun = 50, maxConcurrent = 2, timeoutMs = 30000\<rparr>"

definition new_world :: world where
  "new_world = \<lparr>limiter = new_RateLimiter, clock = 1700000000000, uploads = []\<rparr>"

definition run_with_status :: "ToolRunStatus \<Rightarrow> ToolRun" where
  "run_with_status s =
     \<lparr>status = s, startedAt = None, finishedAt = None, durationMs = None, run_stdoutRef = None,
      run_stderrRef = None, resultSummary = None, run_exitCode = None, run_requestCount = None,
      errorMessage = None\<rparr>"

definition table_with :: "string \<Rightarrow> ToolRunStatus \<Rightarrow> run_table" where
  "table_with runId s = \<lparr>rows = [runId \<mapsto> run_with_status s], statusLog = []\<rparr>"

text \<open>
  A network in which every command prints nothing and every request is answered with a
  \<open>Server\<close> header; the host name of a URL is what follows its scheme.
\<close>

definition quiet_env :: probe_env where
  "quiet_env =
     \<lparr>execAsync = (\<lambda>command. Resolves ([], [])),
      fetchHeaders = (\<lambda>url. Resolves [(''server'', ''nginx'')]),
      fetchHeadersWithOrigin = (\<lambda>url origin. Resolves [(''server'', ''nginx'')]),
      fetchJson = (\<lambda>url. Resolves (JArr [])),
      url_hostname = (\<lambda>url. Some (first_piece (CHR ''/'') (drop 8 url)))\<rparr>"

text \<open>The same network, where the certificate-transparency service never answers.\<close>

definition silent_ct_env :: probe_env where
  "silent_ct_env = quiet_env\<lparr>fetchJson := (\<lambda>url. Pending)\<rparr>"

text \<open>The same network, where the TXT query answers with a DMARC record.\<close>

definition dmarc_env :: probe_env where
  "dmarc_env =
     quiet_env\<lparr>execAsync := (\<lambda>command.
        if command = ''dig +short TXT example.com''
        then Resolves ([CHR 0x22] @ ''v=DMARC1; p=none; rua=mailto:dmarc@example.com'' @ [CHR 0x22, CHR 0x0A], [])
        else Resolves ([], []))\<rparr>"

definition queued_job :: "ToolName \<Rightarrow> string \<Rightarrow> ToolJobData" where
  "queued_job tool t =
     \<lparr>job_toolRunId = ''run-1'', job_assessmentId = ''assessment-1'', job_toolName = tool,
      job_target = t\<rparr>"

text \<open>What is left of a finished job: the statuses written, the final row, the uploads.\<close>

definition statuses_written :: "((js_error + ExecutionResult) \<times> world \<times> run_table) option \<Rightarrow> ToolRunStatus list" where
  "statuses_written out = (case out of None \<Rightarrow> [] | Some (r, w, t) \<Rightarrow> map snd (statusLog t))"

definition final_row :: "((js_error + ExecutionResult) \<times> world \<times> run_table) option \<Rightarrow> ToolRun option" where
  "final_row out = (case out of None \<Rightarrow> None | Some (r, w, t) \<Rightarrow> rows t ''run-1'')"

definition uploaded :: "((js_error + ExecutionResult) \<times> world \<times> run_table) option \<Rightarrow> string list" where
  "uploaded out = (case out of None \<Rightarrow> [] | Some (r, w, t) \<Rightarrow> map snd (uploads w))"

(*PROOFS*)
section \<open>Properties of the rate limiter\<close>

lemma active_apply_call_nonneg:
  "0 \<le> activeExecutions rl \<Longrightarrow> 0 \<le> activeExecutions (apply_call cfg rl c)"
  by (cases c)
     (auto simp: waitForRequestSlot_def Let_def pollExecutionSlot_def releaseExecutionSlot_def
        resetRunState_def split: option.splits)

lemma active_foldl_nonneg:
  "0 \<le> activeExecutions rl \<Longrightarrow> 0 \<le> activeExecutions (foldl (apply_call cfg) rl cs)"
  by (induction cs arbitrary: rl) (simp_all add: active_apply_call_nonneg)

text \<open>
  C10.  The counter of active executions never becomes negative: whatever sequence of
  slot polls, releases (also unbalanced ones), request calls and resets the limiter has
  gone through since its construction, \<open>activeExecutions\<close> is at least 0, and
  \<open>releaseExecutionSlot\<close> decrements only a strictly positive counter.
\<close>

theorem activeExecutions_never_negative:
  "0 \<le> activeExecutions (rl_history cfg calls) \<and>
   activeExecutions (releaseExecutionSlot rl) =
     (if 0 < activeExecutions rl then activeExecutions rl - 1 else activeExecutions rl)"
  by (simp add: rl_history_def active_foldl_nonneg new_RateLimiter_def releaseExecutionSlot_def)







theorem activeExecutions_never_negative_witness:
  "0 \<le> activeExecutions
      (rl_history \<lparr>minDelayMs = 1000, maxRequestsPerRun = 50, maxConcurrent = 2, timeoutMs = 30000\<rparr>
         [ReleaseSlot, PollSlot, ReleaseSlot, ReleaseSlot])"
  using activeExecutions_never_negative
    [of "\<lparr>minDelayMs = 1000, maxRequestsPerRun = 50, maxConcurrent = 2, timeoutMs = 30000\<rparr>"
        "[ReleaseSlot, PollSlot, ReleaseSlot, ReleaseSlot]"]
  by simp



section \<open>Properties of the address checks\<close>

lemma is_digit_digit_char: "d < 10 \<Longrightarrow> is_digit (digit_char d)"
  by (simp add: is_digit_def digit_char_def)

lemma digit_val_digit_char: "d < 10 \<Longrightarrow> digit_val (digit_char d) = d"
  by (simp add: digit_val_def digit_char_def)

lemma show_digits_digits: "0 \<le> n \<Longrightarrow> list_all is_digit (show_digits n)"
proof (induction n rule: show_digits.induct)
  case (1 n)
  show ?case
  proof (cases "n < 10")
    case True
    with 1(2) show ?thesis
      by (subst show_digits.simps) (simp add: is_digit_digit_char)
  next
    case False
    with 1 show ?thesis
      by (subst show_digits.simps) (simp add: is_digit_digit_char nat_less_iff)
  qed
qed

lemma foldl_show_digits:
  "0 \<le> n \<Longrightarrow> int (foldl (\<lambda>a c. 10 * a + digit_val c) 0 (show_digits n)) = n"
proof (induction n rule: show_digits.induct)
  case (1 n)
  show ?case
  proof (cases "n < 10")
    case True
    with 1(2) show ?thesis
      by (subst show_digits.simps) (simp add: digit_val_digit_char)
  next
    case False
    with 1 have "int (foldl (\<lambda>a c. 10 * a + digit_val c) 0 (show_digits (n div 10))) = n div 10"
      by simp
    with False 1(2) show ?thesis
      by (subst show_digits.simps) (simp add: digit_val_digit_char nat_less_iff)
  qed
qed

lemma show_nat_digits: "list_all is_digit (show_nat n)"
  by (simp add: show_nat_def show_digits_digits)

lemma foldl_show_nat: "foldl (\<lambda>a c. 10 * a + digit_val c) 0 (show_nat n) = n"
  using foldl_show_digits [of "int n"] by (simp add: show_nat_def)

lemma js_Number_show_nat: "js_Number (show_nat n) = Some (int n)"
  by (simp add: js_Number_def show_nat_digits foldl_show_nat)

lemma dot_not_digit: "is_digit c \<Longrightarrow> c \<noteq> CHR ''.''"
  by (auto simp: is_digit_def)

lemma show_nat_no_dot: "CHR ''.'' \<notin> set (show_nat n)"
  using show_nat_digits [of n] dot_not_digit by (auto simp: list_all_iff)

lemma split_on_ne: "split_on c s \<noteq> []"
  by (induction s) (auto split: list.splits)

lemma split_on_no_sep: "c \<notin> set p \<Longrightarrow> split_on c p = [p]"
  by (induction p) (auto split: list.splits)

lemma split_on_first: "c \<notin> set p \<Longrightarrow> split_on c (p @ c # rest) = p # split_on c rest"
  by (induction p) (auto split: list.splits simp: split_on_ne)

lemma split_dotted:
  "split_on (CHR ''.'') (dotted (a, b, c, d)) = [show_nat a, show_nat b, show_nat c, show_nat d]"
  by (simp add: dotted_def split_on_first split_on_no_sep show_nat_no_dot)

lemma word_of_shl32: "(word_of_int (shl32 (Some n) k) :: 32 word) = word_of_int (n * 2 ^ k)"
  by (simp add: shl32_def push_bit_eq_mult)

text \<open>On the dotted text of four octets, \<open>ipToNumber\<close> is the 32-bit value of the address.\<close>

lemma ipToNumber_dotted:
  assumes "is_octets q"
  shows "ipToNumber (dotted q) = int (octets_value q)"
proof -
  obtain a b c d where q: "q = (a, b, c, d)" by (cases q) auto
  from assms q have bounds: "a < 256" "b < 256" "c < 256" "d < 256"
    by (simp_all add: is_octets_def)
  let ?v = "int a * 2 ^ 24 + int b * 2 ^ 16 + int c * 2 ^ 8 + int d"
  have parts: "map js_Number (split_on (CHR ''.'') (dotted q)) =
                 [Some (int a), Some (int b), Some (int c), Some (int d)]"
    by (simp add: q split_dotted js_Number_show_nat)
  have "(word_of_int (shl32 (Some (int a)) 24 + shl32 (Some (int b)) 16 +
                      shl32 (Some (int c)) 8 + int d) :: 32 word) = word_of_int ?v"
    by (simp only: of_int_add word_of_shl32)
  then have "ipToNumber (dotted q) = uint (word_of_int ?v :: 32 word)"
    by (simp add: ipToNumber_def parts part_def)
  also have "\<dots> = ?v mod 2 ^ 32"
    unfolding uint_word_of_int by simp
  also have "\<dots> = ?v"
    using bounds by simp
  also have "\<dots> = int (octets_value q)"
    by (simp add: q octets_value_def)
  finally show ?thesis .
qed

lemma BLOCKED_IP_RANGES_values:
  "BLOCKED_IP_RANGES =
    [(0, 16777215), (167772160, 184549375), (1681915904, 1686110207),
     (2130706432, 2147483647), (2851995648, 2852061183), (2886729728, 2887778303),
     (3221225472, 3221225727), (3221225984, 3221226239), (3232235520, 3232301055),
     (3323068416, 3323199487), (3325256704, 3325256959), (3405803776, 3405804031),
     (3758096384, 4026531839), (4026531840, 4294967295)]"
  by code_simp

lemma isPrivateIPv4_dotted:
  assumes "is_octets q"
  shows "isPrivateIPv4 (dotted q) =
           list_ex (\<lambda>range. int (octets_value q) \<ge> fst range \<and> int (octets_value q) \<le> snd range)
             BLOCKED_IP_RANGES"
  by (simp add: isPrivateIPv4_def Let_def ipToNumber_dotted [OF assms])

lemma spec_blocked_cidrs_values:
  "spec_blocked_ipv4 q \<longleftrightarrow>
     (let v = octets_value q in
      v div 16777216 = 0 \<or> v div 16777216 = 10 \<or> v div 4194304 = 401 \<or> v div 16777216 = 127 \<or>
      v div 65536 = 43518 \<or> v div 1048576 = 2753 \<or> v div 256 = 12582912 \<or> v div 256 = 12582914 \<or>
      v div 65536 = 49320 \<or> v div 131072 = 25353 \<or> v div 256 = 12989284 \<or> v div 256 = 13303921 \<or>
      v div 268435456 = 14 \<or> v div 268435456 = 15)"
  by (simp add: spec_blocked_ipv4_def spec_blocked_cidrs_def in_cidr_def octets_value_def Let_def)

lemma div_range:
  assumes "(v::nat) div m = k" and "0 < m"
  shows "int (k * m) \<le> int v \<and> int v \<le> int (k * m + (m - 1))"
proof -
  have "v = k * m + v mod m" using assms(1) by (metis div_mult_mod_eq)
  moreover have "v mod m < m" using assms(2) by simp
  ultimately show ?thesis by linarith
qed

lemma in_blocked_range:
  assumes "is_octets q" and "(lo, hi) \<in> set BLOCKED_IP_RANGES"
    and "lo \<le> int (octets_value q) \<and> int (octets_value q) \<le> hi"
  shows "isPrivateIPv4 (dotted q)"
  unfolding isPrivateIPv4_dotted [OF assms(1)] list_ex_iff
  using assms(2,3) by force

text \<open>Every address in a range the specification lists is in a range of the code.\<close>

lemma spec_blocked_is_private:
  assumes "is_octets q" and "spec_blocked_ipv4 q"
  shows "isPrivateIPv4 (dotted q)"
proof -
  let ?v = "octets_value q"
  note r = in_blocked_range [OF assms(1)]
  from assms(2) consider
    (a) "?v div 16777216 = 0"
  | (b) "?v div 16777216 = 10"
  | (c) "?v div 4194304 = 401"
  | (d) "?v div 16777216 = 127"
  | (e) "?v div 65536 = 43518"
  | (f) "?v div 1048576 = 2753"
  | (g) "?v div 256 = 12582912"
  | (h) "?v div 256 = 12582914"
  | (i) "?v div 65536 = 49320"
  | (j) "?v div 131072 = 25353"
  | (k) "?v div 256 = 12989284"
  | (l) "?v div 256 = 13303921"
  | (m) "?v div 268435456 = 14"
  | (n) "?v div 268435456 = 15"
    unfolding spec_blocked_cidrs_values Let_def by argo
  then show ?thesis
  proof cases
    case a
    show ?thesis
      using div_range [OF a, simplified]
      by (intro r [of 0 16777215]) (simp_all add: BLOCKED_IP_RANGES_values)
  next
    case b
    show ?thesis
      using div_range [OF b, simplified]
      by (intro r [of 167772160 184549375]) (simp_all add: BLOCKED_IP_RANGES_values)
  next
    case c
    show ?thesis
      using div_range [OF c, simplified]
      by (intro r [of 1681915904 1686110207]) (simp_all add: BLOCKED_IP_RANGES_values)
  next
    case d
    show ?thesis
      using div_range [OF d, simplified]
      by (intro r [of 2130706432 2147483647]) (simp_all add: BLOCKED_IP_RANGES_values)
  next
    case e
    show ?thesis
      using div_range [OF e, simplified]
      by (intro r [of 2851995648 2852061183]) (simp_all add: BLOCKED_IP_RANGES_values)
  next
    case f
    show ?thesis
      using div_range [OF f, simplified]
      by (intro r [of 2886729728 2887778303]) (simp_all add: BLOCKED_IP_RANGES_values)
  next
    case g
    show ?thesis
      using div_range [OF g, simplified]
      by (intro r [of 3221225472 3221225727]) (simp_all add: BLOCKED_IP_RANGES_values)
  next
    case h
    show ?thesis
      using div_range [OF h, simplified]
      by (intro r [of 3221225984 3221226239]) (simp_all add: BLOCKED_IP_RANGES_values)
  next
    case i
    show ?thesis
      using div_range [OF i, simplified]
      by (intro r [of 3232235520 3232301055]) (simp_all add: BLOCKED_IP_RANGES_values)
  next
    case j
    show ?thesis
      using div_range [OF j, simplified]
      by (intro r [of 3323068416 3323199487]) (simp_all add: BLOCKED_IP_RANGES_values)
  next
    case k
    show ?thesis
      using div_range [OF k, simplified]
      by (intro r [of 3325256704 3325256959]) (simp_all add: BLOCKED_IP_RANGES_values)
  next
    case l
    show ?thesis
      using div_range [OF l, simplified]
      by (intro r [of 3405803776 3405804031]) (simp_all add: BLOCKED_IP_RANGES_values)
  next
    case m
    show ?thesis
      using div_range [OF m, simplified]
      by (intro r [of 3758096384 4026531839]) (simp_all add: BLOCKED_IP_RANGES_values)
  next
    case n
    show ?thesis
      using div_range [OF n, simplified]
      by (intro r [of 4026531840 4294967295]) (simp_all add: BLOCKED_IP_RANGES_values)
  qed
qed


lemma collect_public_private:
  "\<exists>ip \<in> set ips. isPrivate ip \<Longrightarrow>
   collect_public isPrivate hostname acc ips =
     Inl (BadRequestException (private_address_message hostname))"
  by (induction ips arbitrary: acc) auto

text \<open>
  C1.  When the host validator accepts the host name, so that the name is resolved, and
  the A records contain the dotted text of an address in one of the blocked ranges
  (those of the specification, in CIDR notation), \<open>validateDnsResolution\<close> fails with the
  private-network error, whatever the other A records and the AAAA answer are.
\<close>

theorem private_ipv4_rejects_resolution:
  assumes "hostValidator hostname = Inr vh"
    and "is_octets q" and "spec_blocked_ipv4 q"
    and "dotted q \<in> set v4"
  shows "validateDnsResolution hostValidator hostname (Addresses v4) r6 =
           Inl (BadRequestException (private_address_message hostname))"
proof -
  have "isPrivateIPv4 (dotted q)"
    using assms(2,3) by (rule spec_blocked_is_private)
  with assms(4) have "\<exists>ip \<in> set v4. isPrivateIPv4 ip" by blast
  then have "resolve_family isPrivateIPv4 hostname (Addresses v4) =
               Inl (BadRequestException (private_address_message hostname))"
    by (simp add: resolve_family_def collect_public_private)
  then show ?thesis
    by (simp add: validateDnsResolution_def assms(1))
qed

theorem private_ipv4_rejects_resolution_witness:
  "is_octets (10, 0, 0, 5) \<and> spec_blocked_ipv4 (10, 0, 0, 5) \<and>
   dotted (10, 0, 0, 5) \<in> set [''93.184.216.34'', ''10.0.0.5''] \<and>
   validateDnsResolution (\<lambda>h. Inr h) ''api.example.com''
     (Addresses [''93.184.216.34'', ''10.0.0.5''])
     (Addresses [''2606:2800:220:1:248:1893:25c8:1946'']) =
   Inl (BadRequestException (private_address_message ''api.example.com''))"
proof -
  have a: "is_octets (10, 0, 0, 5)" by (simp add: is_octets_def)
  have b: "spec_blocked_ipv4 (10, 0, 0, 5)"
    by (simp add: spec_blocked_cidrs_values octets_value_def)
  have c: "dotted (10, 0, 0, 5) \<in> set [''93.184.216.34'', ''10.0.0.5'']" by code_simp
  show ?thesis
    using a b c
      private_ipv4_rejects_resolution [of "\<lambda>h. Inr h" "''api.example.com''"
        "''api.example.com''" "(10, 0, 0, 5)" "[''93.184.216.34'', ''10.0.0.5'']"
        "Addresses [''2606:2800:220:1:248:1893:25c8:1946'']"]
    by simp
qed

text \<open>
  C6, evaluated on the code.  \<open>isPrivateIPv6\<close> compares prefixes of the text: the
  IPv4-mapped forms of a link-local and of a carrier-grade NAT address and a link-local
  address of \<open>fe80::/10\<close> outside \<open>fe80::/16\<close> are not recognised, and a host whose only
  record is \<open>::ffff:169.254.169.254\<close> passes \<open>validateDnsResolution\<close>, while the same
  IPv4 address in an A record is rejected.
\<close>

theorem mapped_ipv4_not_rejected:
  "\<not> isPrivateIPv6 ''::ffff:169.254.169.254'' \<and>
   \<not> isPrivateIPv6 ''::ffff:100.64.0.1'' \<and>
   \<not> isPrivateIPv6 ''fe90::1'' \<and>
   isPrivateIPv4 ''169.254.169.254'' \<and>
   validateDnsResolution (\<lambda>h. Inr h) ''api.example.com''
     (DnsError ''queryA ENODATA api.example.com'') (Addresses [''::ffff:169.254.169.254'']) =
   Inr ([], [''::ffff:169.254.169.254''])"
  by code_simp

section \<open>Properties of the matcher\<close>

lemma scan_no_match:
  "(\<And>q. p \<le> q \<Longrightarrow> rmatch r ic s (q, []) = []) \<Longrightarrow> scan r ic s p n = []"
  by (induction n arbitrary: p) auto

lemma replace_first_no_match:
  "(\<And>q. rmatch r ic s (q, []) = []) \<Longrightarrow> replace_first r ic items s = s"
  by (simp add: replace_first_def match_all_def scan_no_match)

lemma rmatch_lit_Cons:
  "rmatch (lit (c # cs)) ic s st = concat (map (rmatch (lit cs) ic s) (rmatch (Lit c) ic s st))"
  by (simp add: lit_def)

lemma rmatch_cat_Cons:
  "rmatch (cat (r # rs)) ic s st = concat (map (rmatch (cat rs) ic s) (rmatch r ic s st))"
  by (simp add: cat_def)

lemma rmatch_cat_Nil: "rmatch (cat []) ic s st = [st]"
  by (simp add: cat_def)

lemma rep_one_char:
  "st' \<in> set (rep k (one_char P s) g mn st) \<Longrightarrow>
   (mn = 0 \<and> st' = st) \<or> (fst st < fst st' \<and> fst st' \<le> length s \<and> P (s ! (fst st' - 1)))"
proof (induction k arbitrary: mn st)
  case 0
  then show ?case by (auto split: if_splits)
next
  case (Suc k)
  show ?case
  proof (cases "fst st < length s \<and> P (s ! fst st)")
    case False
    then have "one_char P s st = []" by (auto simp: one_char_def)
    with Suc.prems show ?thesis by (auto simp: Let_def split: if_splits)
  next
    case True
    then have step: "one_char P s st = [(Suc (fst st), snd st)]" by (simp add: one_char_def)
    from Suc.prems consider
      (stop) "mn = 0" "st' = st"
      | (more) "st' \<in> set (rep k (one_char P s) g (mn - 1) (Suc (fst st), snd st))"
      by (auto simp: Let_def step split: if_splits)
    then show ?thesis
    proof cases
      case stop
      then show ?thesis by simp
    next
      case more
      from Suc.IH [OF more] True show ?thesis by auto
    qed
  qed
qed


section \<open>Properties of the host validator\<close>

lemma code_upper_char:
  "(of_char (upper_char c) :: nat) = (if is_lower c then of_char c - 32 else of_char c)"
  using nat_of_char_less_256 [of c] by (auto simp: upper_char_def is_lower_def)

lemma code_lower_char:
  "(of_char (lower_char c) :: nat) = (if is_upper c then of_char c + 32 else of_char c)"
  using nat_of_char_less_256 [of c] by (auto simp: lower_char_def is_upper_def)

lemma char_eq_code: "c = d \<longleftrightarrow> (of_char c :: nat) = of_char d"
  by simp

lemma char_code_nat: "char_code c = int (of_char c :: nat)"
  by (simp add: char_code_def of_nat_of_char)

lemma upper_char_dot: "upper_char c = CHR ''.'' \<longleftrightarrow> c = CHR ''.''"
  unfolding char_eq_code [of _ "CHR ''.''"] code_upper_char
  by (auto simp: is_lower_def)

lemma lower_char_eq_iff:
  assumes "\<not> is_upper d" and "\<not> is_lower d"
  shows "lower_char c = d \<longleftrightarrow> c = d"
  using assms unfolding char_eq_code [of _ d] code_lower_char
  by (auto simp: is_lower_def is_upper_def)

lemma rmatch_Lit_fun: "rmatch (Lit c) ic s = one_char (char_matches ic c) s"
  by (rule ext) simp

lemma char_matches_dot: "char_matches ic (CHR ''.'') c \<longleftrightarrow> c = CHR ''.''"
proof -
  have "upper_char (CHR ''.'') = CHR ''.''" by (simp add: upper_char_dot)
  then show ?thesis
    unfolding char_matches_def by (metis upper_char_dot)
qed

lemma trailing_dots_no_match:
  assumes "s = [] \<or> last s \<noteq> CHR ''.''"
  shows "rmatch trailing_dots_re ic s (q, []) = []"
proof -
  let ?P = "char_matches ic (CHR ''.'')"
  have "rmatch (cat [Eol]) ic s st' = []"
    if "st' \<in> set (rmatch (many1 (Lit (CHR ''.''))) ic s (q, []))" for st'
  proof -
    from that have "st' \<in> set (rep (1 + (length s - q)) (one_char ?P s) True 1 (q, []))"
      by (simp only: many1_def rmatch.simps option.simps fst_conv rmatch_Lit_fun)
    from rep_one_char [OF this]
    have *: "q < fst st'" "fst st' \<le> length s" "?P (s ! (fst st' - 1))" by auto
    show ?thesis
    proof (cases "fst st' = length s")
      case True
      with * have "s \<noteq> []" by auto
      then have "last s = s ! (fst st' - 1)" using True by (simp add: last_conv_nth)
      with * have "?P (last s)" by simp
      then have "last s = CHR ''.''"
        by (simp add: char_matches_dot)
      with assms \<open>s \<noteq> []\<close> show ?thesis by simp
    next
      case False
      then show ?thesis by (simp add: cat_def)
    qed
  qed
  then show ?thesis
    by (simp add: trailing_dots_re_def rmatch_cat_Cons)
qed

lemma strip_trailing_dots_id:
  "s = [] \<or> last s \<noteq> CHR ''.'' \<Longrightarrow> replace_first trailing_dots_re ic [] s = s"
  by (rule replace_first_no_match) (rule trailing_dots_no_match)

lemma protocol_no_match:
  assumes "s = [] \<or> upper_char (hd s) \<noteq> CHR ''H''"
  shows "rmatch protocol_re True s (q, []) = []"
proof (cases "q = 0")
  case False
  then show ?thesis by (simp add: protocol_re_def rmatch_cat_Cons)
next
  case True
  have h: "upper_char (CHR ''h'') = CHR ''H''"
    unfolding char_eq_code [of _ "CHR ''H''"] code_upper_char by (simp add: is_lower_def)
  have "one_char (char_matches True (CHR ''h'')) s (0, []) = []"
    using assms by (cases s) (auto simp: one_char_def char_matches_def h)
  then show ?thesis
    using True by (simp add: protocol_re_def rmatch_cat_Cons lit_def)
qed

lemma strip_protocol_id:
  "s = [] \<or> upper_char (hd s) \<noteq> CHR ''H'' \<Longrightarrow> replace_first protocol_re True [] s = s"
  by (rule replace_first_no_match) (rule protocol_no_match)

lemma trim_id:
  assumes "s = [] \<or> (\<not> is_space (hd s) \<and> \<not> is_space (last s))"
  shows "trim s = s"
proof (cases s)
  case Nil
  then show ?thesis by (simp add: trim_def)
next
  case (Cons x xs)
  with assms have a: "\<not> is_space x" and b: "\<not> is_space (last s)" by auto
  from a Cons have "dropWhile is_space s = s" by simp
  moreover have "hd (rev s) = last s" using Cons by (simp only: hd_rev)
  with b have "\<not> is_space (hd (rev s))" by simp
  then have "dropWhile is_space (rev s) = rev s" by (cases "rev s") auto
  ultimately show ?thesis by (simp add: trim_def)
qed

lemma first_piece_takeWhile: "first_piece c s = takeWhile (\<lambda>x. x \<noteq> c) s"
  unfolding first_piece_def
  by (induction s) (auto split: list.splits simp: split_on_ne)

lemma takeWhile_twice: "takeWhile P (takeWhile Q s) = takeWhile (\<lambda>x. P x \<and> Q x) s"
  by (induction s) auto

lemma set_takeWhile_conj: "set (takeWhile (\<lambda>x. P x \<and> Q x) s) \<subseteq> set (takeWhile P s)"
  by (induction s) auto

text \<open>
  When trimming and the two replacements leave the lower-cased host as it is, the host
  without port is a prefix of its part before the first colon.
\<close>

lemma strip_port_normalize:
  assumes "s = toLowerCase x"
    and "s \<noteq> []" and "\<not> is_space (hd s)" and "\<not> is_space (last s)"
    and "last s \<noteq> CHR ''.''" and "upper_char (hd s) \<noteq> CHR ''H''"
  shows "strip_port (normalize_host x) =
           takeWhile (\<lambda>c. c \<noteq> CHR '':'' \<and> c \<noteq> CHR ''#'' \<and> c \<noteq> CHR ''?'' \<and> c \<noteq> CHR ''/'') s"
  using assms
  by (simp add: strip_port_def normalize_host_def Let_def trim_id strip_trailing_dots_id
        strip_protocol_id first_piece_takeWhile takeWhile_twice conj_ac)
lemma split_on_single: "split_on c s = [p] \<Longrightarrow> s = p"
  by (induction s arbitrary: p) (auto split: list.splits if_splits simp: split_on_ne)

lemma last_split_on:
  "last (split_on c s) \<noteq> [] \<Longrightarrow> s \<noteq> [] \<and> last s = last (last (split_on c s))"
  by (induction s) (auto split: list.splits if_splits simp: split_on_ne dest: split_on_single)

lemma set_split_on:
  "x \<in> set s \<Longrightarrow> x = c \<or> (\<exists>p \<in> set (split_on c s). x \<in> set p)"
  by (induction s) (auto split: list.splits if_splits simp: split_on_ne)

lemma sep_in_set: "2 \<le> length (split_on c s) \<Longrightarrow> c \<in> set s"
  using split_on_no_sep [of c s] by fastforce

lemma hd_split_on: "hd (split_on c s) = takeWhile (\<lambda>x. x \<noteq> c) s"
  using first_piece_takeWhile [of c s] by (simp add: first_piece_def)

lemma takeWhile_ne_hd: "takeWhile P s \<noteq> [] \<Longrightarrow> s \<noteq> [] \<and> hd s = hd (takeWhile P s)"
  by (cases s) (auto split: if_splits)

lemma set_takeWhile_append: "\<not> P z \<Longrightarrow> set (takeWhile P (xs @ z # zs)) \<subseteq> set xs"
  by (induction xs) auto

lemma is_digit_hex: "is_digit c \<Longrightarrow> is_hex c"
  by (simp add: is_hex_def)

lemma is_hex_code:
  "is_hex c \<longleftrightarrow>
     (48 \<le> (of_char c :: nat) \<and> (of_char c :: nat) \<le> 57) \<or>
     (97 \<le> (of_char c :: nat) \<and> (of_char c :: nat) \<le> 102) \<or>
     (65 \<le> (of_char c :: nat) \<and> (of_char c :: nat) \<le> 70)"
  by (auto simp: is_hex_def is_digit_def in_ranges_def char_code_nat)

lemma octet_text_digits: "octet_text p \<Longrightarrow> p \<noteq> [] \<and> list_all is_digit p"
  by (simp add: octet_text_def)

lemma h16_hex: "h16 p \<Longrightarrow> p \<noteq> [] \<and> list_all is_hex p"
  by (simp add: h16_def)

lemma isIPv4_facts:
  assumes "isIPv4 x"
  shows "x \<noteq> []" and "is_digit (hd x)" and "is_digit (last x)"
    and "\<forall>c \<in> set x. is_digit c \<or> c = CHR ''.''"
proof -
  let ?ps = "split_on (CHR ''.'') x"
  from assms have all: "list_all octet_text ?ps" and len: "length ?ps = 4"
    by (simp_all add: isIPv4_def Let_def)
  have ne: "?ps \<noteq> []" by (rule split_on_ne)
  from all ne have "octet_text (hd ?ps)" and "octet_text (last ?ps)"
    by (auto simp: list_all_iff)
  then have first: "hd ?ps \<noteq> []" "list_all is_digit (hd ?ps)"
    and final: "last ?ps \<noteq> []" "list_all is_digit (last ?ps)"
    using octet_text_digits by blast+
  from first(1) have "x \<noteq> [] \<and> hd x = hd (hd ?ps)"
    unfolding hd_split_on by (rule takeWhile_ne_hd)
  with first show "x \<noteq> []" and "is_digit (hd x)"
    by (auto simp: list_all_iff)
  from last_split_on [OF final(1)] final show "is_digit (last x)"
    by (auto simp: list_all_iff)
  show "\<forall>c \<in> set x. is_digit c \<or> c = CHR ''.''"
  proof
    fix c assume "c \<in> set x"
    from set_split_on [OF this, of "CHR ''.''"] all octet_text_digits
    show "is_digit c \<or> c = CHR ''.''"
      by (auto simp: list_all_iff)
  qed
qed

lemma split_double_colon_Some:
  "split_double_colon y = Some (l, r) \<Longrightarrow> y = l @ ''::'' @ r"
  by (induction y arbitrary: l rule: split_double_colon.induct)
     (auto split: if_splits option.splits)

lemma group_count_Some:
  assumes "group_count v4 ps = Some n" and "ps \<noteq> []"
  shows "(list_all h16 ps \<and> n = length ps) \<or>
         (v4 \<and> list_all h16 (butlast ps) \<and> isIPv4 (last ps) \<and> n = length ps + 1)"
  using assms by (auto simp: group_count_def split: if_splits)

text \<open>The last character of a run of pieces that counts as groups is a hexadecimal digit.\<close>

lemma group_count_last:
  assumes "group_count v4 (split_on (CHR '':'') r) = Some n"
  shows "r \<noteq> [] \<and> is_hex (last r)"
proof -
  let ?ps = "split_on (CHR '':'') r"
  have ne: "?ps \<noteq> []" by (rule split_on_ne)
  from group_count_Some [OF assms ne]
  have "h16 (last ?ps) \<or> isIPv4 (last ?ps)"
    using ne by (auto simp: list_all_iff)
  then have "last ?ps \<noteq> [] \<and> is_hex (last (last ?ps))"
  proof
    assume "h16 (last ?ps)"
    then show ?thesis using h16_hex by (auto simp: list_all_iff)
  next
    assume "isIPv4 (last ?ps)"
    then show ?thesis using isIPv4_facts(1,3) is_digit_hex by blast
  qed
  with last_split_on [of "CHR '':''" r] show ?thesis by auto
qed

lemma hex_not_dot: "is_hex c \<Longrightarrow> c \<noteq> CHR ''.''"
  by (auto simp: is_hex_code)

lemma isIPv6_facts:
  assumes "isIPv6 y"
  shows "y \<noteq> []" and "is_hex (hd y) \<or> hd y = CHR '':''"
    and "is_hex (last y) \<or> last y = CHR '':''"
    and "CHR ''.'' \<notin> set (takeWhile (\<lambda>c. c \<noteq> CHR '':'') y)"
    and "CHR '':'' \<in> set y"
proof -
  have "y \<noteq> [] \<and> (is_hex (hd y) \<or> hd y = CHR '':'') \<and>
        (is_hex (last y) \<or> last y = CHR '':'') \<and>
        CHR ''.'' \<notin> set (takeWhile (\<lambda>c. c \<noteq> CHR '':'') y) \<and> CHR '':'' \<in> set y"
  proof (cases "split_double_colon y")
    case None
    let ?ps = "split_on (CHR '':'') y"
    from assms None have gc: "group_count True ?ps = Some 8"
      by (simp add: isIPv6_def)
    have ne: "?ps \<noteq> []" by (rule split_on_ne)
    from group_count_Some [OF gc ne]
    have shape: "(list_all h16 ?ps \<and> length ?ps = 8) \<or>
                 (list_all h16 (butlast ?ps) \<and> length ?ps = 7)" by auto
    then have len: "2 \<le> length ?ps" by auto
    from shape have "h16 (hd ?ps)"
    proof
      assume "list_all h16 ?ps \<and> length ?ps = 8"
      with ne show ?thesis by (auto simp: list_all_iff)
    next
      assume a: "list_all h16 (butlast ?ps) \<and> length ?ps = 7"
      then have "butlast ?ps \<noteq> []" by (cases ?ps) auto
      then have "hd (butlast ?ps) \<in> set (butlast ?ps)" by simp
      moreover have "hd (butlast ?ps) = hd ?ps"
        using \<open>butlast ?ps \<noteq> []\<close> by (cases ?ps) (auto split: if_splits)
      ultimately show ?thesis using a by (auto simp: list_all_iff)
    qed
    then have first: "takeWhile (\<lambda>c. c \<noteq> CHR '':'') y \<noteq> []"
      "list_all is_hex (takeWhile (\<lambda>c. c \<noteq> CHR '':'') y)"
      using h16_hex unfolding hd_split_on by blast+
    from takeWhile_ne_hd [OF first(1)] first
    have "y \<noteq> []" and "is_hex (hd y)" by (auto simp: list_all_iff)
    moreover from group_count_last [OF gc] have "is_hex (last y)" by simp
    moreover from first(2) have "CHR ''.'' \<notin> set (takeWhile (\<lambda>c. c \<noteq> CHR '':'') y)"
      using hex_not_dot by (auto simp: list_all_iff)
    moreover from len have "CHR '':'' \<in> set y" by (rule sep_in_set)
    ultimately show ?thesis by simp
  next
    case (Some lr)
    obtain l r where lr: "lr = (l, r)" by (cases lr)
    from Some lr have y: "y = l @ ''::'' @ r"
      by (auto dest: split_double_colon_Some)
    from assms Some lr obtain m n where
      gl: "group_count False (colon_pieces l) = Some m" and
      gr: "group_count True (colon_pieces r) = Some n"
      by (auto simp: isIPv6_def split: option.splits)
    have l_chars: "\<forall>c \<in> set l. is_hex c \<or> c = CHR '':''"
    proof (cases "l = []")
      case True
      then show ?thesis by simp
    next
      case False
      with gl have "group_count False (split_on (CHR '':'') l) = Some m"
        by (simp add: colon_pieces_def)
      from group_count_Some [OF this split_on_ne]
      have all: "list_all h16 (split_on (CHR '':'') l)" by simp
      show ?thesis
      proof
        fix c assume "c \<in> set l"
        from set_split_on [OF this, of "CHR '':''"] all h16_hex
        show "is_hex c \<or> c = CHR '':''" by (auto simp: list_all_iff)
      qed
    qed
    have "is_hex (hd y) \<or> hd y = CHR '':''"
      using l_chars y by (cases l) auto
    moreover have "is_hex (last y) \<or> last y = CHR '':''"
    proof (cases "r = []")
      case True
      with y show ?thesis by simp
    next
      case False
      with gr have "group_count True (split_on (CHR '':'') r) = Some n"
        by (simp add: colon_pieces_def)
      from group_count_last [OF this] y False show ?thesis by simp
    qed
    moreover have "CHR ''.'' \<notin> set (takeWhile (\<lambda>c. c \<noteq> CHR '':'') y)"
    proof -
      have "set (takeWhile (\<lambda>c. c \<noteq> CHR '':'') (l @ CHR '':'' # CHR '':'' # r)) \<subseteq> set l"
        by (rule set_takeWhile_append) simp
      with l_chars hex_not_dot show ?thesis unfolding y by fastforce
    qed
    ultimately show ?thesis using y by simp
  qed
  then show "y \<noteq> []" and "is_hex (hd y) \<or> hd y = CHR '':''"
    and "is_hex (last y) \<or> last y = CHR '':''"
    and "CHR ''.'' \<notin> set (takeWhile (\<lambda>c. c \<noteq> CHR '':'') y)"
    and "CHR '':'' \<in> set y" by simp_all
qed

lemma validateHost_rejects:
  assumes "isIP (strip_port (normalize_host x)) \<noteq> 0 \<or>
           no_registrable_domain (psl_parse (strip_port (normalize_host x)))"
  shows "\<exists>e. validateHost psl_parse x = Inl (BadRequestException e)"
  using assms
  by (auto simp: validateHost_def Let_def no_registrable_domain_def
        split: psl_result.splits option.splits)

lemma digit_dot_chars:
  assumes "is_digit c \<or> c = CHR ''.''"
  shows "lower_char c = c" and "\<not> is_space c" and "upper_char c \<noteq> CHR ''H''"
    and "c \<noteq> CHR '':''" and "c \<noteq> CHR ''#''" and "c \<noteq> CHR ''?''" and "c \<noteq> CHR ''/''"
proof -
  from assms have code: "(48 \<le> (of_char c :: nat) \<and> (of_char c :: nat) \<le> 57) \<or> (of_char c :: nat) = 46"
    by (auto simp: is_digit_def)
  show "lower_char c = c"
    unfolding char_eq_code [of _ c] code_lower_char using code by (auto simp: is_upper_def)
  show "\<not> is_space c" using code by (auto simp: is_space_def)
  show "upper_char c \<noteq> CHR ''H''"
    unfolding char_eq_code [of _ "CHR ''H''"] code_upper_char using code by (auto simp: is_lower_def)
  show "c \<noteq> CHR '':''" "c \<noteq> CHR ''#''" "c \<noteq> CHR ''?''" "c \<noteq> CHR ''/''"
    unfolding char_eq_code [of c] using code by auto
qed

lemma hex_colon_lower:
  assumes "is_hex c \<or> c = CHR '':''"
  shows "\<not> is_space (lower_char c)" and "upper_char (lower_char c) \<noteq> CHR ''H''"
    and "lower_char c \<noteq> CHR ''.''"
proof -
  from assms have code:
    "(48 \<le> (of_char c :: nat) \<and> (of_char c :: nat) \<le> 58) \<or>
     (97 \<le> (of_char c :: nat) \<and> (of_char c :: nat) \<le> 102) \<or>
     (65 \<le> (of_char c :: nat) \<and> (of_char c :: nat) \<le> 70)"
    by (auto simp: is_hex_code)
  then have low:
    "(48 \<le> (of_char (lower_char c) :: nat) \<and> (of_char (lower_char c) :: nat) \<le> 58) \<or>
     (97 \<le> (of_char (lower_char c) :: nat) \<and> (of_char (lower_char c) :: nat) \<le> 102)"
    unfolding code_lower_char by (auto simp: is_upper_def)
  show "\<not> is_space (lower_char c)" using low by (auto simp: is_space_def)
  show "upper_char (lower_char c) \<noteq> CHR ''H''"
    unfolding char_eq_code [of _ "CHR ''H''"] code_upper_char [of "lower_char c"]
    using low by (auto simp: is_lower_def)
  show "lower_char c \<noteq> CHR ''.''"
    unfolding char_eq_code [of _ "CHR ''.''"] using low by auto
qed

lemma lower_char_colon: "lower_char c \<noteq> CHR '':'' \<longleftrightarrow> c \<noteq> CHR '':''"
  by (simp add: lower_char_eq_iff is_upper_def is_lower_def)

lemma lower_char_dot: "lower_char c = CHR ''.'' \<longleftrightarrow> c = CHR ''.''"
  by (simp add: lower_char_eq_iff is_upper_def is_lower_def)

lemma takeWhile_colon_lower:
  "takeWhile (\<lambda>c. c \<noteq> CHR '':'') (toLowerCase y) =
   toLowerCase (takeWhile (\<lambda>c. c \<noteq> CHR '':'') y)"
  by (simp add: toLowerCase_def takeWhile_map comp_def lower_char_colon)

lemma dot_toLowerCase: "CHR ''.'' \<in> set (toLowerCase y) \<longleftrightarrow> CHR ''.'' \<in> set y"
proof -
  have "CHR ''.'' = lower_char c \<longleftrightarrow> c = CHR ''.''" for c
    using lower_char_dot [of c] by auto
  then show ?thesis by (auto simp: toLowerCase_def image_iff)
qed

text \<open>A dotted-decimal address passes the normalisation unchanged and is then an IP.\<close>

lemma ipv4_literal_host:
  assumes "isIPv4 x"
  shows "strip_port (normalize_host x) = x"
proof -
  note f = isIPv4_facts [OF assms]
  from f(4) have low: "toLowerCase x = x"
    by (auto simp: toLowerCase_def digit_dot_chars(1) intro: map_idI)
  have "last x \<noteq> CHR ''.''" using f(3) dot_not_digit by blast
  then have "strip_port (normalize_host x) =
      takeWhile (\<lambda>c. c \<noteq> CHR '':'' \<and> c \<noteq> CHR ''#'' \<and> c \<noteq> CHR ''?'' \<and> c \<noteq> CHR ''/'') x"
    using f(1,2,3) digit_dot_chars(2,3)
    by (intro strip_port_normalize) (simp_all add: low)
  also have "\<dots> = x"
    using f(4) digit_dot_chars(4-7) by (simp add: takeWhile_eq_all_conv)
  finally show ?thesis .
qed

text \<open>An IPv6 address, bare or in brackets, leaves a host without port that has no dot.\<close>

lemma ipv6_literal_host:
  assumes "isIPv6 y"
  shows "CHR ''.'' \<notin> set (strip_port (normalize_host y))"
proof -
  note f = isIPv6_facts [OF assms]
  let ?s = "toLowerCase y"
  have ne: "?s \<noteq> []" using f(1) by (simp add: toLowerCase_def)
  have hd: "hd ?s = lower_char (hd y)" and last: "last ?s = lower_char (last y)"
    using f(1) by (simp_all add: toLowerCase_def hd_map last_map)
  have "strip_port (normalize_host y) =
      takeWhile (\<lambda>c. c \<noteq> CHR '':'' \<and> c \<noteq> CHR ''#'' \<and> c \<noteq> CHR ''?'' \<and> c \<noteq> CHR ''/'') ?s"
    using ne hex_colon_lower [OF f(2)] hex_colon_lower [OF f(3)]
    by (intro strip_port_normalize) (simp_all add: hd last)
  then have "set (strip_port (normalize_host y)) \<subseteq> set (takeWhile (\<lambda>c. c \<noteq> CHR '':'') ?s)"
    using set_takeWhile_conj
      [of "\<lambda>c. c \<noteq> CHR '':''" "\<lambda>c. c \<noteq> CHR ''#'' \<and> c \<noteq> CHR ''?'' \<and> c \<noteq> CHR ''/''" ?s]
    by simp
  moreover have "CHR ''.'' \<notin> set (takeWhile (\<lambda>c. c \<noteq> CHR '':'') ?s)"
    using f(4) by (simp add: takeWhile_colon_lower dot_toLowerCase)
  ultimately show ?thesis by blast
qed

lemma bracket_chars:
  "lower_char (CHR '']'') = CHR '']''" "\<not> is_space (CHR ''['')" "\<not> is_space (CHR '']'')"
  "upper_char (CHR ''['') \<noteq> CHR ''H''"
  by (simp_all add: lower_char_def upper_char_def is_upper_def is_lower_def is_space_def)

lemma bracketed_ipv6_literal_host:
  assumes "isIPv6 y"
  shows "CHR ''.'' \<notin> set (strip_port (normalize_host (CHR ''['' # y @ '']'')))"
proof -
  note f = isIPv6_facts [OF assms]
  let ?x = "CHR ''['' # y @ '']''"
  let ?s = "toLowerCase ?x"
  have s: "?s = CHR ''['' # toLowerCase y @ '']''"
    by (simp add: toLowerCase_def lower_char_def is_upper_def)
  have "strip_port (normalize_host ?x) =
      takeWhile (\<lambda>c. c \<noteq> CHR '':'' \<and> c \<noteq> CHR ''#'' \<and> c \<noteq> CHR ''?'' \<and> c \<noteq> CHR ''/'') ?s"
    by (intro strip_port_normalize) (simp_all add: s bracket_chars)
  then have sub: "set (strip_port (normalize_host ?x)) \<subseteq> set (takeWhile (\<lambda>c. c \<noteq> CHR '':'') ?s)"
    using set_takeWhile_conj
      [of "\<lambda>c. c \<noteq> CHR '':''" "\<lambda>c. c \<noteq> CHR ''#'' \<and> c \<noteq> CHR ''?'' \<and> c \<noteq> CHR ''/''" ?s]
    by simp
  have colon: "CHR '':'' \<in> set (toLowerCase y)"
    using f(5) by (auto simp: toLowerCase_def image_iff lower_char_def is_upper_def intro!: bexI [of _ "CHR '':''"])
  have "takeWhile (\<lambda>c. c \<noteq> CHR '':'') ?s =
          CHR ''['' # takeWhile (\<lambda>c. c \<noteq> CHR '':'') (toLowerCase y)"
    unfolding s using colon by (simp add: takeWhile_append1 [of "CHR '':''"])
  moreover have "CHR ''.'' \<notin> set (takeWhile (\<lambda>c. c \<noteq> CHR '':'') (toLowerCase y))"
    using f(4) by (simp add: takeWhile_colon_lower dot_toLowerCase)
  ultimately show ?thesis using sub by auto
qed

text \<open>
  C7.  Every dotted-decimal IPv4 address, every IPv6 address in text form and every
  IPv6 address in brackets is rejected by \<open>validateHost\<close> with a
  \<open>BadRequestException\<close>.  An IPv4 address is caught by the \<open>isIP\<close> check.  Of an IPv6
  address only the text before the first colon reaches the checks; it has no dot, and
  the rejection rests on the public-suffix parser finding no registrable domain in a
  name without a dot, which is the hypothesis on \<open>psl_parse\<close>.
\<close>

theorem validateHost_rejects_ip_literals:
  assumes "\<forall>h. CHR ''.'' \<notin> set h \<longrightarrow> no_registrable_domain (psl_parse h)"
    and "ip_literal x"
  shows "\<exists>e. validateHost psl_parse x = Inl (BadRequestException e)"
proof -
  from assms(2) consider
    (v4) "isIPv4 x"
    | (v6) "isIPv6 x"
    | (bracket) y where "x = CHR ''['' # y @ '']''" "isIPv6 y"
  proof (cases "isIPv4 x \<or> isIPv6 x")
    case True
    then show ?thesis using that by blast
  next
    case False
    with assms(2) obtain cs where cs: "x = CHR ''['' # cs" "cs \<noteq> []" "last cs = CHR '']''"
      "isIPv6 (butlast cs)"
      by (auto simp: ip_literal_def split: list.splits)
    then have "cs = butlast cs @ '']''"
      using append_butlast_last_id [of cs] by simp
    with cs that(3) [of "butlast cs"] show ?thesis by simp
  qed
  then show ?thesis
  proof cases
    case v4
    then have "isIP (strip_port (normalize_host x)) \<noteq> 0"
      by (simp add: ipv4_literal_host isIP_def)
    then show ?thesis by (intro validateHost_rejects) simp
  next
    case v6
    from ipv6_literal_host [OF this] assms(1)
    have "no_registrable_domain (psl_parse (strip_port (normalize_host x)))" by blast
    then show ?thesis by (intro validateHost_rejects) simp
  next
    case bracket
    from bracketed_ipv6_literal_host [OF bracket(2)] assms(1) bracket(1)
    have "no_registrable_domain (psl_parse (strip_port (normalize_host x)))" by blast
    then show ?thesis by (intro validateHost_rejects) simp
  qed
qed

theorem validateHost_rejects_ip_literals_witness:
  "ip_literal ''192.168.1.5'' \<and> ip_literal ''fe80::1'' \<and> ip_literal ''[2001:db8::1]'' \<and>
   (\<exists>e. validateHost
          (\<lambda>h. if CHR ''.'' \<in> set h then PslParsed (Some h) True else PslParsed None False)
          ''192.168.1.5'' = Inl (BadRequestException e)) \<and>
   (\<exists>e. validateHost
          (\<lambda>h. if CHR ''.'' \<in> set h then PslParsed (Some h) True else PslParsed None False)
          ''fe80::1'' = Inl (BadRequestException e)) \<and>
   (\<exists>e. validateHost
          (\<lambda>h. if CHR ''.'' \<in> set h then PslParsed (Some h) True else PslParsed None False)
          ''[2001:db8::1]'' = Inl (BadRequestException e))"
proof -
  let ?psl = "\<lambda>h. if CHR ''.'' \<in> set h then PslParsed (Some h) True else PslParsed None False"
  have p: "\<forall>h. CHR ''.'' \<notin> set h \<longrightarrow> no_registrable_domain (?psl h)"
    by (simp add: no_registrable_domain_def)
  have a: "ip_literal ''192.168.1.5''" by code_simp
  have b: "ip_literal ''fe80::1''" by code_simp
  have c: "ip_literal ''[2001:db8::1]''" by code_simp
  show ?thesis
    using p a b c
      validateHost_rejects_ip_literals [OF p a]
      validateHost_rejects_ip_literals [OF p b]
      validateHost_rejects_ip_literals [OF p c]
    by simp
qed

section \<open>Properties of the redaction service\<close>















section \<open>The worker and the tool runs, evaluated\<close>

lemma waitForExecutionSlot_free:
  "activeExecutions rl < maxConcurrent cfg \<Longrightarrow>
   waitForExecutionSlot cfg (rl, now) =
     Some (rl\<lparr>activeExecutions := activeExecutions rl + 1\<rparr>, now)"
  by (subst waitForExecutionSlot.simps) (simp add: pollExecutionSlot_def)

text \<open>With a free execution slot the job processor takes it, runs the job and releases it.\<close>

lemma processJob_free_slot:
  assumes "activeExecutions (limiter w) < maxConcurrent cfg"
  shows "processJob cfg env job (w, t) =
           (case job_body cfg env job (clock w)
                   (w\<lparr>limiter := (limiter w)\<lparr>activeExecutions := activeExecutions (limiter w) + 1\<rparr>,
                      clock := clock w\<rparr>, t) of
              (r, w1, t1) \<Rightarrow> Some (r, w1\<lparr>limiter := releaseExecutionSlot (limiter w1)\<rparr>, t1))"
  by (simp add: processJob_def Let_def waitForExecutionSlot_free [OF assms])

lemma new_world_free: "activeExecutions (limiter new_world) < maxConcurrent default_config"
  by (simp add: new_world_def new_RateLimiter_def default_config_def)

lemmas processJob_new_world = processJob_free_slot [OF new_world_free]

lemma rebind_rejected:
  "validateDnsResolution (\<lambda>h. Inr h) ''rebind.example.com''
     (Addresses [''10.0.0.5'']) (DnsError ''queryAaaa ENODATA rebind.example.com'') =
   Inl (BadRequestException (private_address_message ''rebind.example.com''))"
proof -
  have "isPrivateIPv4 (dotted (10, 0, 0, 5))"
    by (rule spec_blocked_is_private)
       (simp_all add: is_octets_def spec_blocked_cidrs_values octets_value_def)
  moreover have "dotted (10, 0, 0, 5) = ''10.0.0.5''" by code_simp
  ultimately show ?thesis
    by (simp add: validateDnsResolution_def resolve_family_def)
qed

text \<open>
  C3, evaluated on the code.  The job processor takes the job from the queue, waits for
  an execution slot and writes \<open>RUNNING\<close>; it calls no validation of the target.  A job
  for a host whose A record has meanwhile become \<open>10.0.0.5\<close>, which
  \<open>validateDnsResolution\<close> rejects, runs to \<open>COMPLETED\<close>.
\<close>

theorem worker_runs_without_validation:
  "statuses_written
     (processJob default_config quiet_env (queued_job HEADER_CHECK ''rebind.example.com'')
        (new_world, table_with ''run-1'' QUEUED)) = [RUNNING, COMPLETED] \<and>
   validateDnsResolution (\<lambda>h. Inr h) ''rebind.example.com''
     (Addresses [''10.0.0.5'']) (DnsError ''queryAaaa ENODATA rebind.example.com'') =
   Inl (BadRequestException (private_address_message ''rebind.example.com''))"
  unfolding processJob_new_world rebind_rejected by code_simp

text \<open>
  C4, evaluated on the code.  The certificate-transparency request is still pending
  when the timer of \<open>withTimeout\<close> fires.  The probe catches the timer's error and
  returns a result, so the job processor writes \<open>COMPLETED\<close>; and the message of the
  timer's error does not contain \<open>timeout\<close>, the word the processor looks for.
\<close>

theorem timed_out_probe_is_completed:
  "map_option status
     (final_row (processJob default_config silent_ct_env (queued_job CERT_TRANSPARENCY ''example.com'')
        (new_world, table_with ''run-1'' QUEUED))) = Some COMPLETED \<and>
   map_option resultSummary
     (final_row (processJob default_config silent_ct_env (queued_job CERT_TRANSPARENCY ''example.com'')
        (new_world, table_with ''run-1'' QUEUED))) =
     Some (Some ''Certificate transparency lookup failed: Tool execution timed out after 30000ms'') \<and>
   \<not> includes_str (timeout_message default_config) ''timeout''"
  unfolding processJob_new_world by code_simp

text \<open>
  C9, evaluated on the code.  \<open>cancel\<close> refuses only \<open>COMPLETED\<close> and \<open>FAILED\<close>: a run in
  \<open>TIMEOUT\<close> becomes \<open>CANCELLED\<close>, and a run in \<open>CANCELLED\<close> is cancelled again rather than
  refused.  The job processor does not read the status: a run cancelled while it was
  queued is written \<open>RUNNING\<close> and \<open>COMPLETED\<close>.
\<close>

theorem cancel_overwrites_terminal_status:
  "(case cancel ''run-1'' 1700000000500 (table_with ''run-1'' TIMEOUT) of
      Inl e \<Rightarrow> None
    | Inr t \<Rightarrow> map_option status (rows t ''run-1'')) = Some CANCELLED \<and>
   (case cancel ''run-1'' 1700000000500 (table_with ''run-1'' CANCELLED) of
      Inl e \<Rightarrow> None
    | Inr t \<Rightarrow> map_option finishedAt (rows t ''run-1'')) = Some (Some 1700000000500) \<and>
   statuses_written
     (processJob default_config quiet_env (queued_job HEADER_CHECK ''example.com'')
        (new_world, table_with ''run-1'' CANCELLED)) = [RUNNING, COMPLETED]"
  unfolding processJob_new_world by code_simp

text \<open>
  C2, evaluated on the code.  The DNS lookup uploads the JSON text of its results as it
  is: the address in a DMARC record reaches the blob store, and the uploaded text is
  not the redaction of itself.  (The TLS and header checks pass their output through
  \<open>redactOutput\<close>; the other five probes do not.)
\<close>

lemma dns_upload:
  "uploaded (processJob default_config dmarc_env (queued_job DNS_LOOKUP ''example.com'')
      (new_world, table_with ''run-1'' QUEUED)) =
   [JSON_stringify (JObj [(''TXT'',
      JArr [JStr ([CHR 0x22] @ ''v=DMARC1; p=none; rua=mailto:dmarc@example.com'' @ [CHR 0x22])])])]"
  unfolding processJob_new_world by code_simp

lemma dns_upload_redacted:
  "redactOutput (JSON_stringify (JObj [(''TXT'',
      JArr [JStr ([CHR 0x22] @ ''v=DMARC1; p=none; rua=mailto:dmarc@example.com'' @ [CHR 0x22])])])) =
   JSON_stringify (JObj [(''TXT'',
      JArr [JStr ([CHR 0x22] @ ''v=DMARC1; p=none; rua=mailto:[REDACTED_EMAIL]'' @ [CHR 0x22])])])"
  by code_simp

lemma dns_upload_has_address:
  "includes_str (JSON_stringify (JObj [(''TXT'',
      JArr [JStr ([CHR 0x22] @ ''v=DMARC1; p=none; rua=mailto:dmarc@example.com'' @ [CHR 0x22])])]))
     ''dmarc@example.com''"
  by code_simp

theorem dns_output_uploaded_unredacted:
  "list_all (\<lambda>text. includes_str text ''dmarc@example.com'' \<and> redactOutput text \<noteq> text)
     (uploaded (processJob default_config dmarc_env (queued_job DNS_LOOKUP ''example.com'')
        (new_world, table_with ''run-1'' QUEUED))) \<and>
   length (uploaded (processJob default_config dmarc_env (queued_job DNS_LOOKUP ''example.com'')
        (new_world, table_with ''run-1'' QUEUED))) = 1"
  unfolding dns_upload
  by (simp add: dns_upload_has_address dns_upload_redacted del: append.simps) code_simp

end
